theory Spec2Isabelle
  imports Main
begin

section \<open>The TVPaint plugin's JSON-RPC bridge (library.cpp)\<close>

text \<open>
  The plugin talks to a server over one WebSocket connection with JSON-RPC 2.0. This
  theory embeds the bridge of \<^verbatim>\<open>avalon/tvpaint/plugin_code/library.cpp\<close>: the
  classes \<^verbatim>\<open>connection_metadata\<close>, \<^verbatim>\<open>websocket_endpoint\<close> and
  \<^verbatim>\<open>Communicator\<close>, the globals \<^verbatim>\<open>client_request_id\<close>,
  \<^verbatim>\<open>messages\<close> and \<^verbatim>\<open>responses\<close>, and the exposed procedure
  \<^verbatim>\<open>execute_george\<close>.

  What the file takes from its libraries (jsonrpcpp, nlohmann::json, websocketpp, the
  host's SDK and the C runtime) is not part of the file. It enters the model as data:
  the outcome of \<^verbatim>\<open>parser.do_parse\<close>, of \<^verbatim>\<open>get_connection\<close>, of
  \<^verbatim>\<open>TVSendCmd\<close> and of \<^verbatim>\<open>std::getenv\<close> are parameters, and every frame
  handed to the websocketpp client's \<^verbatim>\<open>send\<close> is recorded in a trace.
\<close>

subsection \<open>JSON values and JSON-RPC entities\<close>

datatype json =
    JNull
  | JBool bool
  | JInt int
  | JString string
  | JArray "json list"
  | JObject "(string \<times> json) list"

text \<open>
  \<^verbatim>\<open>jsonrpcpp::Id\<close> keeps a type tag, an integer and a string; \<^verbatim>\<open>int_id()\<close>
  reads the integer whatever the tag is.
\<close>

datatype id_type = id_null | id_string | id_integer

record Id =
  id_kind :: id_type
  int_id :: int
  string_id :: string

definition Id_default :: Id where
  "Id_default = \<lparr>id_kind = id_null, int_id = 0, string_id = ''''\<rparr>"

definition Id_of_int :: "int \<Rightarrow> Id" where
  "Id_of_int n = \<lparr>id_kind = id_integer, int_id = n, string_id = ''''\<rparr>"

record Error =
  err_message :: string
  err_code :: int
  err_data :: json

record Response =
  resp_id :: Id
  resp_result :: json
  resp_error :: "Error option"

text \<open>The three ways the file builds a Response: \<^verbatim>\<open>jsonrpcpp::Response response;\<close>,
  \<^verbatim>\<open>Response(id, output)\<close> and \<^verbatim>\<open>Response(id, error)\<close>.\<close>

definition Response_default :: Response where
  "Response_default = \<lparr>resp_id = Id_default, resp_result = JNull, resp_error = None\<rparr>"

definition Response_result :: "Id \<Rightarrow> json \<Rightarrow> Response" where
  "Response_result i output = \<lparr>resp_id = i, resp_result = output, resp_error = None\<rparr>"

definition Response_error :: "Id \<Rightarrow> Error \<Rightarrow> Response" where
  "Response_error i e = \<lparr>resp_id = i, resp_result = JNull, resp_error = Some e\<rparr>"

record Request =
  req_id :: Id
  req_method :: string
  req_params :: json

record Notification =
  ntf_method :: string
  ntf_params :: json

text \<open>
  What \<^verbatim>\<open>parser.do_parse\<close> can hand back: a null pointer, or an entity that is
  a response, a request, a notification or a batch. Request, Notification and Response
  are separate classes below Entity, so a
  \<^verbatim>\<open>dynamic_pointer_cast<jsonrpcpp::Request>\<close> gives a non-null pointer for a
  request only.
\<close>

datatype entity =
    EResponse Response
  | ERequest Request
  | ENotification Notification
  | EBatch "entity list"

fun is_response :: "entity \<Rightarrow> bool" where
  "is_response (EResponse r) = True"
| "is_response e = False"

fun cast_Request :: "entity \<Rightarrow> Request option" where
  "cast_Request (ERequest r) = Some r"
| "cast_Request e = None"

text \<open>
  An exception leaving \<^verbatim>\<open>do_parse\<close>, named by the first \<^verbatim>\<open>catch\<close> clause
  of \<^verbatim>\<open>process_message\<close> that takes it. The two entity exceptions carry their
  error object; the other two carry the text of \<^verbatim>\<open>what()\<close>.
\<close>

datatype thrown =
    RequestException Error Id
  | ParseErrorException Error
  | RpcException string
  | std_exception string

text \<open>Modelled from the spec: the constructor \<^verbatim>\<open>jsonrpcpp::ParseErrorException(e.what())\<close>
  is jsonrpcpp's; the spec gives a ParseError the code \<open>-32700\<close>. The text becomes the
  data of the error.\<close>

definition ParseErrorException_what :: "string \<Rightarrow> thrown" where
  "ParseErrorException_what w =
     ParseErrorException \<lparr>err_message = ''Parse error'', err_code = - 32700, err_data = JString w\<rparr>"

datatype parsed = Throws thrown | Entity "entity option"

text \<open>
  A frame handed to the websocketpp client: the \<^verbatim>\<open>dump()\<close> of an entity's or of an
  exception's \<^verbatim>\<open>to_json()\<close>, or the close frame of \<^verbatim>\<open>m_endpoint.close\<close>.
  (\<^verbatim>\<open>connection_metadata::ping\<close>, which would send a bare JSON value, has no caller
  in the file and is left out.)
\<close>

datatype frame =
    Dump_entity entity
  | Dump_exception thrown
  | Close_going_away

fun frame_error_code :: "frame \<Rightarrow> int option" where
  "frame_error_code (Dump_entity (EResponse r)) = map_option err_code (resp_error r)"
| "frame_error_code (Dump_exception (RequestException e i)) = Some (err_code e)"
| "frame_error_code (Dump_exception (ParseErrorException e)) = Some (err_code e)"
| "frame_error_code f = None"

subsection \<open>What the libraries and the host decide\<close>

text \<open>
  \<^item> \<open>do_parse\<close>: \<^verbatim>\<open>parser.do_parse(msg)\<close>;
  \<^item> \<open>to_hex\<close>: \<^verbatim>\<open>websocketpp::utility::to_hex\<close>;
  \<^item> \<open>get_connection\<close>: the error code of \<^verbatim>\<open>m_endpoint.get_connection(uri, ec)\<close>,
    \<open>None\<close> when it is clear;
  \<^item> \<open>TVSendCmd\<close>: the host's return value for a command and the text it produces;
  \<^item> \<open>literals_shared\<close>: whether the two \<^verbatim>\<open>""\<close> literals of
    \<^verbatim>\<open>execute_george\<close> are one object, which the compiler decides;
  \<^item> \<open>param_what\<close>: the \<^verbatim>\<open>what()\<close> of the exception raised when the first
    parameter cannot be read as a string.
\<close>

record env =
  do_parse :: "string \<Rightarrow> parsed"
  to_hex :: "string \<Rightarrow> string"
  get_connection :: "string \<Rightarrow> string option"
  TVSendCmd :: "string \<Rightarrow> int \<times> string"
  literals_shared :: bool
  param_what :: "json \<Rightarrow> string"

subsection \<open>State\<close>

datatype error = NullPointer | ThreadNotJoinable | Uncaught thrown | Blocked

record connection_metadata =
  m_status :: string
  m_uri :: string
  m_server :: string
  m_error_reason :: string

datatype thread = Running | Joined

text \<open>\<open>m_endpoint\<close> is the trace of the websocketpp client: the frames handed to
  it, oldest first. The two smart pointers are \<open>None\<close> while null.\<close>

record websocket_endpoint =
  m_endpoint :: "frame list"
  client_metadata :: "connection_metadata option"
  m_thread :: "thread option"

record Communicator =
  websocket_url :: string
  connected :: bool
  use_avalon :: bool
  endpoint :: websocket_endpoint

text \<open>The globals of the file. \<open>request_callbacks\<close> is the registry inside the
  global \<^verbatim>\<open>parser\<close>; \<open>cerr\<close> collects the lines written to
  \<^verbatim>\<open>std::cerr\<close>. \<^verbatim>\<open>client_request_id\<close> is a C \<^verbatim>\<open>int\<close>; the model
  counts in \<open>int\<close> and says nothing about the 2147483648th call.\<close>

record program =
  client_request_id :: int
  messages :: "string list"
  responses :: "int \<rightharpoonup> Response"
  request_callbacks :: "string \<rightharpoonup> (Id \<Rightarrow> json \<Rightarrow> Response option)"
  cerr :: "string list"
  communication :: Communicator

subsection \<open>connection_metadata\<close>

definition new_connection_metadata :: "string \<Rightarrow> connection_metadata" where
  "new_connection_metadata uri =
     \<lparr>m_status = ''Connecting'', m_uri = uri, m_server = ''N/A'', m_error_reason = ''''\<rparr>"

definition on_open :: "string \<Rightarrow> connection_metadata \<Rightarrow> connection_metadata" where
  "on_open server cm = cm\<lparr>m_status := ''Open'', m_server := server\<rparr>"

definition on_fail :: "string \<Rightarrow> string \<Rightarrow> connection_metadata \<Rightarrow> connection_metadata" where
  "on_fail server reason cm =
     cm\<lparr>m_status := ''Failed'', m_server := server, m_error_reason := reason\<rparr>"

definition on_close :: "string \<Rightarrow> connection_metadata \<Rightarrow> connection_metadata" where
  "on_close reason cm = cm\<lparr>m_status := ''Closed'', m_error_reason := reason\<rparr>"

text \<open>\<^verbatim>\<open>connection_metadata::send\<close> hands the frame to the client, whatever
  \<open>m_status\<close> says; an error code coming back is only printed. The trace records the
  call. Whether the frame reaches the wire is websocketpp's decision.\<close>

definition cm_send :: "frame \<Rightarrow> websocket_endpoint \<Rightarrow> websocket_endpoint" where
  "cm_send f ep = ep\<lparr>m_endpoint := m_endpoint ep @ [f]\<rparr>"

definition send_frame :: "frame \<Rightarrow> program \<Rightarrow> program" where
  "send_frame f p =
     p\<lparr>communication := (communication p)\<lparr>endpoint := cm_send f (endpoint (communication p))\<rparr>\<rparr>"

definition sent :: "program \<Rightarrow> frame list" where
  "sent p = m_endpoint (endpoint (communication p))"

definition process_message :: "env \<Rightarrow> string \<Rightarrow> program \<Rightarrow> program" where
  "process_message E msg p =
     (case do_parse E msg of
        Throws (RequestException e i) \<Rightarrow> send_frame (Dump_exception (RequestException e i)) p
      | Throws (ParseErrorException e) \<Rightarrow> send_frame (Dump_exception (ParseErrorException e)) p
      | Throws (RpcException w) \<Rightarrow>
          send_frame (Dump_exception (ParseErrorException_what w))
            (p\<lparr>cerr := cerr p @ [''RpcException: '' @ w]\<rparr>)
      | Throws (std_exception w) \<Rightarrow> p\<lparr>cerr := cerr p @ [''Exception: '' @ w]\<rparr>
      | Entity None \<Rightarrow> p
      | Entity (Some (EResponse r)) \<Rightarrow> p\<lparr>responses := (responses p)(int_id (resp_id r) \<mapsto> r)\<rparr>
      | Entity (Some (ERequest r)) \<Rightarrow> p\<lparr>messages := messages p @ [msg]\<rparr>
      | Entity (Some (ENotification n)) \<Rightarrow> p\<lparr>messages := messages p @ [msg]\<rparr>
      | Entity (Some (EBatch b)) \<Rightarrow> p)"

text \<open>\<^verbatim>\<open>on_message\<close>: a text frame is processed as it is, any other frame as its
  hex dump.\<close>

definition on_message :: "env \<Rightarrow> bool \<Rightarrow> string \<Rightarrow> program \<Rightarrow> program" where
  "on_message E is_text payload p =
     process_message E (if is_text then payload else to_hex E payload) p"

subsection \<open>websocket_endpoint\<close>

definition new_endpoint :: websocket_endpoint where
  "new_endpoint = \<lparr>m_endpoint = [], client_metadata = None, m_thread = None\<rparr>"

definition is_open :: "websocket_endpoint \<Rightarrow> bool" where
  "is_open ep = (case client_metadata ep of None \<Rightarrow> False | Some cm \<Rightarrow> m_status cm = ''Open'')"

text \<open>\<^verbatim>\<open>websocket_endpoint::connect\<close> starts the thread first, then returns 0 when
  already open, -1 when \<^verbatim>\<open>get_connection\<close> reports an error, and otherwise creates
  the metadata and returns 1. The handshake itself runs on the thread; its outcome
  arrives later as an event.\<close>

definition endpoint_connect :: "env \<Rightarrow> string \<Rightarrow> websocket_endpoint \<Rightarrow> int \<times> websocket_endpoint" where
  "endpoint_connect E uri ep =
     (let ep1 = ep\<lparr>m_thread := Some Running\<rparr> in
      if is_open ep1 then (0, ep1)
      else case get_connection E uri of
             Some ec \<Rightarrow> (- 1, ep1)
           | None \<Rightarrow> (1, ep1\<lparr>client_metadata := Some (new_connection_metadata uri)\<rparr>))"

text \<open>\<^verbatim>\<open>close_connection\<close> reads \<^verbatim>\<open>client_metadata->get_status()\<close> and calls
  \<^verbatim>\<open>m_thread->join()\<close> without testing either pointer. A thread can be joined
  once; joining it again raises.\<close>

definition close_connection :: "websocket_endpoint \<Rightarrow> error + websocket_endpoint" where
  "close_connection ep =
     (case client_metadata ep of
        None \<Rightarrow> Inl NullPointer
      | Some cm \<Rightarrow>
          (let ep1 = (if m_status cm = ''Open'' then cm_send Close_going_away ep else ep) in
           case m_thread ep1 of
             None \<Rightarrow> Inl NullPointer
           | Some Joined \<Rightarrow> Inl ThreadNotJoinable
           | Some Running \<Rightarrow> Inr (ep1\<lparr>m_thread := Some Joined\<rparr>)))"

text \<open>\<^verbatim>\<open>websocket_endpoint::send\<close> tests the pointer and the status; the three
  typed senders below it do not.\<close>

definition endpoint_send :: "frame \<Rightarrow> websocket_endpoint \<Rightarrow> websocket_endpoint" where
  "endpoint_send f ep = (if is_open ep then cm_send f ep else ep)"

definition send_notification :: "Notification \<Rightarrow> websocket_endpoint \<Rightarrow> error + websocket_endpoint" where
  "send_notification n ep =
     (case client_metadata ep of
        None \<Rightarrow> Inl NullPointer
      | Some cm \<Rightarrow> Inr (cm_send (Dump_entity (ENotification n)) ep))"

definition send_response :: "entity \<Rightarrow> websocket_endpoint \<Rightarrow> error + websocket_endpoint" where
  "send_response e ep =
     (case client_metadata ep of
        None \<Rightarrow> Inl NullPointer
      | Some cm \<Rightarrow> Inr (cm_send (Dump_entity e) ep))"

definition send_request :: "Request \<Rightarrow> websocket_endpoint \<Rightarrow> error + websocket_endpoint" where
  "send_request r ep =
     (case client_metadata ep of
        None \<Rightarrow> Inl NullPointer
      | Some cm \<Rightarrow> Inr (cm_send (Dump_entity (ERequest r)) ep))"

subsection \<open>Communicator\<close>

text \<open>
  The constructor assigns the result of \<^verbatim>\<open>std::getenv("WEBSOCKET_URL")\<close> to a
  \<^verbatim>\<open>std::string\<close>. \<open>None\<close> is the null pointer \<^verbatim>\<open>getenv\<close> returns for a
  variable that is not set: assigning it is a null-pointer read, and no Communicator
  comes out.
\<close>

definition Communicator_new :: "string option \<Rightarrow> error + Communicator" where
  "Communicator_new getenv =
     (case getenv of
        None \<Rightarrow> Inl NullPointer
      | Some url \<Rightarrow>
          Inr \<lparr>websocket_url = url, connected = False,
               use_avalon = (if url = [] then False else True),
               endpoint = new_endpoint\<rparr>)"

definition Communicator_connect :: "env \<Rightarrow> Communicator \<Rightarrow> Communicator" where
  "Communicator_connect E c =
     (if \<not> use_avalon c then c
      else let (con_result, ep) = endpoint_connect E (websocket_url c) (endpoint c) in
           if con_result = - 1
           then c\<lparr>connected := False, use_avalon := False, endpoint := ep\<rparr>
           else c\<lparr>connected := True, use_avalon := True, endpoint := ep\<rparr>)"

definition connect :: "env \<Rightarrow> program \<Rightarrow> program" where
  "connect E p = p\<lparr>communication := Communicator_connect E (communication p)\<rparr>"

definition set_endpoint :: "websocket_endpoint \<Rightarrow> program \<Rightarrow> program" where
  "set_endpoint ep p = p\<lparr>communication := (communication p)\<lparr>endpoint := ep\<rparr>\<rparr>"

text \<open>A run that dereferences a null pointer or lets an exception escape stops there;
  the result keeps the error and the state it stopped in.\<close>

type_synonym 'a stops = "(error \<times> program) + 'a"

definition call_notification :: "string \<Rightarrow> json \<Rightarrow> program \<Rightarrow> program stops" where
  "call_notification method_name params p =
     (if \<not> use_avalon (communication p) \<or> \<not> connected (communication p) then Inr p
      else case send_notification \<lparr>ntf_method = method_name, ntf_params = params\<rparr>
                  (endpoint (communication p)) of
             Inl e \<Rightarrow> Inl (e, p)
           | Inr ep \<Rightarrow> Inr (set_endpoint ep p))"

subsection \<open>The transport thread\<close>

text \<open>
  The handlers run on the thread of the websocketpp client. They are bound to the
  metadata object that \<^verbatim>\<open>connect\<close> creates, so while there is none no event
  arrives.
\<close>

datatype event =
    Opened string
  | Failed string string
  | Closed string
  | Message bool string

definition map_metadata :: "(connection_metadata \<Rightarrow> connection_metadata) \<Rightarrow> program \<Rightarrow> program" where
  "map_metadata f p =
     set_endpoint ((endpoint (communication p))
        \<lparr>client_metadata := map_option f (client_metadata (endpoint (communication p)))\<rparr>) p"

fun deliver :: "env \<Rightarrow> event \<Rightarrow> program \<Rightarrow> program" where
  "deliver E (Opened server) p = map_metadata (on_open server) p"
| "deliver E (Failed server reason) p = map_metadata (on_fail server reason) p"
| "deliver E (Closed reason) p = map_metadata (on_close reason) p"
| "deliver E (Message is_text payload) p =
     (if client_metadata (endpoint (communication p)) = None then p
      else on_message E is_text payload p)"

definition deliver_all :: "env \<Rightarrow> event list \<Rightarrow> program \<Rightarrow> program" where
  "deliver_all E evs p = fold (deliver E) evs p"

subsection \<open>call_method\<close>

text \<open>
  The loop of \<^verbatim>\<open>call_method\<close> looks the id up in \<^verbatim>\<open>responses\<close> and sleeps
  100 ms when it is not there. Only the transport thread writes the table, so the loop
  is run against a schedule: the events that thread handles during the first sleep,
  during the second, and so on. When the schedule is used up the transport stays silent
  for good; a lookup that fails then fails at every later poll, and the call never
  returns: that outcome is \<open>None\<close>.
\<close>

fun await :: "env \<Rightarrow> int \<Rightarrow> event list list \<Rightarrow> program \<Rightarrow> Response option \<times> program" where
  "await E request_id [] p = (responses p request_id, p)"
| "await E request_id (evs # sched) p =
     (case responses p request_id of
        Some response \<Rightarrow> (Some response, p)
      | None \<Rightarrow> await E request_id sched (deliver_all E evs p))"

definition call_method ::
    "env \<Rightarrow> string \<Rightarrow> json \<Rightarrow> event list list \<Rightarrow> program \<Rightarrow> (Response option \<times> program) stops" where
  "call_method E method_name params sched p =
     (if \<not> use_avalon (communication p) \<or> \<not> connected (communication p)
      then Inr (Some Response_default, p)
      else
        let request_id = client_request_id p;
            p1 = p\<lparr>client_request_id := request_id + 1\<rparr>
        in case send_request
                  \<lparr>req_id = Id_of_int request_id, req_method = method_name, req_params = params\<rparr>
                  (endpoint (communication p1)) of
             Inl e \<Rightarrow> Inl (e, p1)
           | Inr ep \<Rightarrow> Inr (await E request_id sched (set_endpoint ep p1)))"

subsection \<open>process_requests\<close>

text \<open>
  Modelled from the spec: \<^verbatim>\<open>parser.parse\<close> is jsonrpcpp's. It is the spec's
  dispatcher: \<^verbatim>\<open>do_parse\<close>, then for a request whose method has a registered
  callback the callback's response (when that is not null); any other entity comes back
  as parsed. The program registers no notification callback.
\<close>

definition parse :: "env \<Rightarrow> program \<Rightarrow> string \<Rightarrow> parsed" where
  "parse E p msg =
     (case do_parse E msg of
        Entity (Some (ERequest r)) \<Rightarrow>
          (case request_callbacks p (req_method r) of
             None \<Rightarrow> Entity (Some (ERequest r))
           | Some callback \<Rightarrow>
               (case callback (req_id r) (req_params r) of
                  None \<Rightarrow> Entity (Some (ERequest r))
                | Some response \<Rightarrow> Entity (Some (EResponse response))))
      | other \<Rightarrow> other)"

definition method_not_found :: "Request \<Rightarrow> Response" where
  "method_not_found r =
     Response_error (req_id r)
       \<lparr>err_message = ''Method '' @ [CHR 0x22] @ req_method r @ [CHR 0x22] @ '' not found'',
        err_code = - 32601, err_data = JNull\<rparr>"

text \<open>
  One turn of the loop for the message at the front of the queue, \<open>rest\<close> being
  the queue behind it. The parsed pointer is used unchecked, and what is not a response
  is cast to Request and used unchecked as well; an exception of \<^verbatim>\<open>parse\<close> is
  not caught here. The turn ends with \<^verbatim>\<open>messages.pop()\<close>.
\<close>

definition process_front :: "env \<Rightarrow> string \<Rightarrow> string list \<Rightarrow> program \<Rightarrow> program stops" where
  "process_front E msg rest p =
     (case parse E p msg of
        Throws x \<Rightarrow> Inl (Uncaught x, p)
      | Entity None \<Rightarrow> Inl (NullPointer, p)
      | Entity (Some response) \<Rightarrow>
          if is_response response then
            (case send_response response (endpoint (communication p)) of
               Inl e \<Rightarrow> Inl (e, p)
             | Inr ep \<Rightarrow> Inr ((set_endpoint ep p)\<lparr>messages := rest\<rparr>))
          else
            (case cast_Request response of
               None \<Rightarrow> Inl (NullPointer, p)
             | Some request \<Rightarrow>
                 (case send_response (EResponse (method_not_found request))
                         (endpoint (communication p)) of
                    Inl e \<Rightarrow> Inl (e, p)
                  | Inr ep \<Rightarrow> Inr ((set_endpoint ep p)\<lparr>messages := rest\<rparr>))))"

fun process_loop :: "env \<Rightarrow> string list \<Rightarrow> program \<Rightarrow> program stops" where
  "process_loop E [] p = Inr p"
| "process_loop E (msg # rest) p =
     (case process_front E msg rest p of
        Inl stop \<Rightarrow> Inl stop
      | Inr p' \<Rightarrow> process_loop E rest p')"

text \<open>The turns of the loop for the messages queued ahead of a given one: the loop on a
  part \<open>ahead\<close> of the queue, with \<open>behind\<close> being what is queued after that
  part.\<close>

fun process_prefix :: "env \<Rightarrow> string list \<Rightarrow> string list \<Rightarrow> program \<Rightarrow> program stops" where
  "process_prefix E [] behind p = Inr p"
| "process_prefix E (msg # ahead) behind p =
     (case process_front E msg (ahead @ behind) p of
        Inl stop \<Rightarrow> Inl stop
      | Inr p' \<Rightarrow> process_prefix E ahead behind p')"

definition process_requests :: "env \<Rightarrow> program \<Rightarrow> program stops" where
  "process_requests E p =
     (if \<not> use_avalon (communication p) \<or> \<not> connected (communication p) \<or> messages p = []
      then Inr p
      else process_loop E (messages p) p)"

subsection \<open>execute_george\<close>

text \<open>
  \<^verbatim>\<open>json_params[0]\<close> read as a \<^verbatim>\<open>std::string\<close>: the first element of an array
  when that is a string; anything else raises an exception of the JSON library.
\<close>

fun first_param :: "env \<Rightarrow> json \<Rightarrow> string + string" where
  "first_param E (JArray (JString s # rest)) = Inr s"
| "first_param E params = Inl (param_what E params)"

text \<open>
  \<^verbatim>\<open>_output\<close> is a \<^verbatim>\<open>char *\<close> set to the literal \<^verbatim>\<open>""\<close> and passed to
  \<^verbatim>\<open>TVSendCmd\<close> by value, so after the call it still points to that literal. The
  test \<^verbatim>\<open>_output == ""\<close> compares this pointer with the address of a second
  \<^verbatim>\<open>""\<close> literal: it is \<open>literals_shared\<close>, whatever the command produced.
  The text read through \<^verbatim>\<open>_output\<close> afterwards is what the host left at that
  address, the second component of \<open>TVSendCmd\<close>. (The buffer the host gets is the
  literal itself; what writing into it does to the process is the host's and the
  platform's matter and not part of the model.)
\<close>

definition execute_george :: "env \<Rightarrow> Id \<Rightarrow> json \<Rightarrow> Response option" where
  "execute_george E i params =
     (case first_param E params of
        Inl what \<Rightarrow> Some (Response_result i (JString what))
      | Inr george_script \<Rightarrow>
          (let (result, output) = TVSendCmd E george_script in
           if literals_shared E then Some (Response_result i (JBool (result \<noteq> 0)))
           else Some (Response_result i (JString output))))"

definition register_callbacks :: "env \<Rightarrow> program \<Rightarrow> program" where
  "register_callbacks E p =
     p\<lparr>request_callbacks := (request_callbacks p)(''execute_george'' \<mapsto> execute_george E)\<rparr>"

subsection \<open>Program start\<close>

text \<open>The globals as their initialisers leave them, and \<^verbatim>\<open>PI_Open\<close>, which
  connects and then registers the callback.\<close>

definition globals_start :: "Communicator \<Rightarrow> program" where
  "globals_start c =
     \<lparr>client_request_id = 1, messages = [], responses = Map.empty,
      request_callbacks = Map.empty, cerr = [], communication = c\<rparr>"

definition program_start :: "string option \<Rightarrow> error + program" where
  "program_start getenv =
     (case Communicator_new getenv of
        Inl e \<Rightarrow> Inl e
      | Inr c \<Rightarrow> Inr (globals_start c))"

definition PI_Open :: "env \<Rightarrow> program \<Rightarrow> program" where
  "PI_Open E p = register_callbacks E (connect E p)"

subsection \<open>Runs of the plugin\<close>

text \<open>
  What happens to the bridge after its construction: the host connects, registers the
  callback, calls a method (with the schedule of the transport during the call), sends a
  notification or drains the queue, and between these the transport thread handles an
  event. A run ends at the first operation that stops; a call that never returns stops
  the run as \<open>Blocked\<close>.
\<close>

datatype op =
    Connect
  | Register
  | Transport event
  | Call string json "event list list"
  | Notify string json
  | Drain

fun step :: "env \<Rightarrow> op \<Rightarrow> program \<Rightarrow> program stops" where
  "step E Connect p = Inr (connect E p)"
| "step E Register p = Inr (register_callbacks E p)"
| "step E (Transport ev) p = Inr (deliver E ev p)"
| "step E (Call method_name params sched) p =
     (case call_method E method_name params sched p of
        Inl stop \<Rightarrow> Inl stop
      | Inr (None, p') \<Rightarrow> Inl (Blocked, p')
      | Inr (Some response, p') \<Rightarrow> Inr p')"
| "step E (Notify method_name params) p = call_notification method_name params p"
| "step E Drain p = process_requests E p"

fun run :: "env \<Rightarrow> op list \<Rightarrow> program \<Rightarrow> program stops" where
  "run E [] p = Inr p"
| "run E (x # xs) p =
     (case step E x p of
        Inl stop \<Rightarrow> Inl stop
      | Inr p' \<Rightarrow> run E xs p')"

text \<open>A \<^verbatim>\<open>connect()\<close> in this state reaches \<^verbatim>\<open>websocket_endpoint::connect\<close>
  and gets past \<^verbatim>\<open>get_connection\<close> there.\<close>

definition can_connect :: "env \<Rightarrow> program \<Rightarrow> bool" where
  "can_connect E p \<longleftrightarrow>
     use_avalon (communication p) \<and> get_connection E (websocket_url (communication p)) = None"

text \<open>The table after the transport thread has handled the first batches of a
  schedule.\<close>

definition after :: "env \<Rightarrow> event list list \<Rightarrow> program \<Rightarrow> program" where
  "after E sched p = fold (deliver_all E) sched p"

text \<open>The state in which \<^verbatim>\<open>call_method\<close> enters its loop: the id is taken and the
  request is with the transport.\<close>

definition request_sent :: "string \<Rightarrow> json \<Rightarrow> program \<Rightarrow> program" where
  "request_sent method_name params p =
     send_frame
       (Dump_entity (ERequest
          \<lparr>req_id = Id_of_int (client_request_id p), req_method = method_name, req_params = params\<rparr>))
       (p\<lparr>client_request_id := client_request_id p + 1\<rparr>)"

text \<open>Abstractions of the state used in the proofs: the fields that decide whether the
  bridge is usable, and two conditions on the pointers of the endpoint.\<close>

definition wiring :: "program \<Rightarrow> string \<times> bool \<times> bool \<times> bool \<times> thread option" where
  "wiring p =
     (websocket_url (communication p), use_avalon (communication p), connected (communication p),
      client_metadata (endpoint (communication p)) \<noteq> None, m_thread (endpoint (communication p)))"

definition wired :: "program \<Rightarrow> bool" where
  "wired p \<longleftrightarrow>
     client_metadata (endpoint (communication p)) \<noteq> None
     \<and> m_thread (endpoint (communication p)) = Some Running"

definition connected_ok :: "program \<Rightarrow> bool" where
  "connected_ok p \<longleftrightarrow>
     (connected (communication p) \<longrightarrow>
        use_avalon (communication p) \<and> client_metadata (endpoint (communication p)) \<noteq> None)"

subsection \<open>A concrete server\<close>

text \<open>Texts a peer can send, and a parser outcome for each as jsonrpcpp classifies
  them; used to run the definitions on concrete inputs.\<close>

definition text_first :: string where
  \<open>text_first = ''{"jsonrpc":"2.0","id":1,"result":"first"}''\<close>

definition text_second :: string where
  \<open>text_second = ''{"jsonrpc":"2.0","id":1,"result":"second"}''\<close>

definition text_stray :: string where
  \<open>text_stray = ''{"jsonrpc":"2.0","id":7,"result":"stray"}''\<close>

definition text_ping :: string where
  \<open>text_ping = ''{"jsonrpc":"2.0","id":4,"method":"ping","params":{"seq":7}}''\<close>

definition text_unknown :: string where
  \<open>text_unknown = ''{"jsonrpc":"2.0","id":3,"method":"no_such_tool","params":[]}''\<close>

definition text_note :: string where
  \<open>text_note = ''{"jsonrpc":"2.0","method":"progress","params":[50]}''\<close>

definition text_object :: string where
  \<open>text_object = ''{"hello":"world"}''\<close>

definition text_bad_request :: string where
  \<open>text_bad_request = ''{"jsonrpc":"2.0","id":5,"method":17}''\<close>

definition text_broken :: string where
  \<open>text_broken = ''{"jsonrpc":''\<close>

definition response_first :: Response where
  "response_first = Response_result (Id_of_int 1) (JString ''first'')"

definition response_second :: Response where
  "response_second = Response_result (Id_of_int 1) (JString ''second'')"

definition response_stray :: Response where
  "response_stray = Response_result (Id_of_int 7) (JString ''stray'')"

definition request_ping :: Request where
  "request_ping =
     \<lparr>req_id = Id_of_int 4, req_method = ''ping'', req_params = JObject [(''seq'', JInt 7)]\<rparr>"

definition request_unknown :: Request where
  "request_unknown =
     \<lparr>req_id = Id_of_int 3, req_method = ''no_such_tool'', req_params = JArray []\<rparr>"

definition note_progress :: Notification where
  "note_progress = \<lparr>ntf_method = ''progress'', ntf_params = JArray [JInt 50]\<rparr>"

definition invalid_request :: Error where
  "invalid_request =
     \<lparr>err_message = ''method must be a string value'', err_code = - 32600, err_data = JNull\<rparr>"

definition demo_parse :: "string \<Rightarrow> parsed" where
  "demo_parse msg =
     (if msg = text_first then Entity (Some (EResponse response_first))
      else if msg = text_second then Entity (Some (EResponse response_second))
      else if msg = text_stray then Entity (Some (EResponse response_stray))
      else if msg = text_ping then Entity (Some (ERequest request_ping))
      else if msg = text_unknown then Entity (Some (ERequest request_unknown))
      else if msg = text_note then Entity (Some (ENotification note_progress))
      else if msg = text_object then Entity None
      else if msg = text_bad_request then Throws (RequestException invalid_request (Id_of_int 5))
      else Throws (RpcException ''parse error''))"

definition hex_digit :: "nat \<Rightarrow> char" where
  "hex_digit n = ''0123456789ABCDEF'' ! (n mod 16)"

definition demo_to_hex :: "string \<Rightarrow> string" where
  "demo_to_hex s =
     concat (map (\<lambda>c. [hex_digit (of_char c div 16), hex_digit (of_char c), CHR '' '']) s)"

definition demo_url :: string where
  "demo_url = ''ws://localhost:8090''"

definition demo_env :: env where
  "demo_env =
     \<lparr>do_parse = demo_parse,
      to_hex = demo_to_hex,
      get_connection = (\<lambda>uri. if uri = demo_url then None else Some ''invalid uri''),
      TVSendCmd = (\<lambda>cmd. if cmd = ''tv_version'' then (1, ''TVPaint Animation 11.5'') else (0, [])),
      literals_shared = True,
      param_what = (\<lambda>j. ''type must be string'')\<rparr>"

definition demo_communicator :: Communicator where
  "demo_communicator =
     \<lparr>websocket_url = demo_url, connected = False, use_avalon = True, endpoint = new_endpoint\<rparr>"

text \<open>The plugin after \<^verbatim>\<open>PI_Open\<close> with the server at \<open>demo_url\<close>, once the
  handshake has succeeded.\<close>

definition demo_open :: program where
  "demo_open = deliver demo_env (Opened ''aiohttp'') (PI_Open demo_env (globals_start demo_communicator))"

section \<open>Properties\<close>

subsection \<open>The concrete server, evaluated\<close>

lemmas texts =
  text_first_def text_second_def text_stray_def text_ping_def text_unknown_def
  text_note_def text_object_def text_bad_request_def text_broken_def

lemma demo_parse_simps:
  "demo_parse text_first = Entity (Some (EResponse response_first))"
  "demo_parse text_second = Entity (Some (EResponse response_second))"
  "demo_parse text_stray = Entity (Some (EResponse response_stray))"
  "demo_parse text_ping = Entity (Some (ERequest request_ping))"
  "demo_parse text_unknown = Entity (Some (ERequest request_unknown))"
  "demo_parse text_note = Entity (Some (ENotification note_progress))"
  "demo_parse text_object = Entity None"
  "demo_parse text_bad_request = Throws (RequestException invalid_request (Id_of_int 5))"
  "demo_parse text_broken = Throws (RpcException ''parse error'')"
  by (simp_all add: demo_parse_def texts)

lemma demo_env_simps:
  "do_parse demo_env = demo_parse"
  "get_connection demo_env demo_url = None"
  "literals_shared demo_env = True"
  "TVSendCmd demo_env ''tv_version'' = (1, ''TVPaint Animation 11.5'')"
  by (simp_all add: demo_env_def)

lemma demo_open_eq:
  "demo_open =
     \<lparr>client_request_id = 1, messages = [], responses = Map.empty,
      request_callbacks = [''execute_george'' \<mapsto> execute_george demo_env], cerr = [],
      communication =
        \<lparr>websocket_url = demo_url, connected = True, use_avalon = True,
         endpoint =
           \<lparr>m_endpoint = [],
            client_metadata =
              Some \<lparr>m_status = ''Open'', m_uri = demo_url, m_server = ''aiohttp'', m_error_reason = []\<rparr>,
            m_thread = Some Running\<rparr>\<rparr>\<rparr>"
  by (simp add: demo_open_def PI_Open_def register_callbacks_def connect_def
      Communicator_connect_def endpoint_connect_def globals_start_def demo_communicator_def
      new_endpoint_def is_open_def demo_env_simps map_metadata_def set_endpoint_def on_open_def
      new_connection_metadata_def Let_def)

subsection \<open>What the operations leave alone\<close>

text \<open>Only \<^verbatim>\<open>Communicator::connect\<close> changes the flags, the address, the thread or
  whether there is a metadata object.\<close>

lemma sent_send_frame: "sent (send_frame f p) = sent p @ [f]"
  by (simp add: sent_def send_frame_def cm_send_def)

lemma wiring_send_frame: "wiring (send_frame f p) = wiring p"
  by (simp add: wiring_def send_frame_def cm_send_def)

lemma wiring_process_message: "wiring (process_message E msg p) = wiring p"
  by (simp add: process_message_def wiring_send_frame
      split: parsed.split thrown.split option.split entity.split)
    (simp add: wiring_def)

lemma wiring_deliver: "wiring (deliver E ev p) = wiring p"
proof (cases ev)
  case (Message is_text payload)
  then show ?thesis by (simp add: on_message_def wiring_process_message)
qed (simp_all add: map_metadata_def set_endpoint_def wiring_def)

lemma wiring_deliver_all: "wiring (deliver_all E evs p) = wiring p"
  unfolding deliver_all_def
  by (induction evs arbitrary: p) (simp_all add: wiring_deliver)

lemma wiring_await: "wiring (snd (await E n sched p)) = wiring p"
  by (induction sched arbitrary: p) (simp_all add: wiring_deliver_all split: option.split)

lemma wiring_call_method:
  "call_method E m ps sched p = Inr (r, p') \<Longrightarrow> wiring p' = wiring p"
proof -
  assume a: "call_method E m ps sched p = Inr (r, p')"
  show ?thesis
  proof (cases "\<not> use_avalon (communication p) \<or> \<not> connected (communication p)")
    case True
    with a show ?thesis by (auto simp: call_method_def)
  next
    case False
    with a obtain ep where
      "await E (client_request_id p) sched (set_endpoint ep (p\<lparr>client_request_id := client_request_id p + 1\<rparr>)) = (r, p')"
      and "send_request \<lparr>req_id = Id_of_int (client_request_id p), req_method = m, req_params = ps\<rparr>
             (endpoint (communication p)) = Inr ep"
      by (auto simp: call_method_def Let_def split: sum.splits)
    then have "p' = snd (await E (client_request_id p) sched
                 (set_endpoint ep (p\<lparr>client_request_id := client_request_id p + 1\<rparr>)))"
      and "client_metadata ep = client_metadata (endpoint (communication p))"
      and "m_thread ep = m_thread (endpoint (communication p))"
      by (auto simp: send_request_def cm_send_def split: option.splits)
    then show ?thesis by (simp add: wiring_await) (simp add: wiring_def set_endpoint_def)
  qed
qed

lemma wiring_call_notification:
  "call_notification m ps p = Inr p' \<Longrightarrow> wiring p' = wiring p"
  by (auto simp: call_notification_def send_notification_def cm_send_def set_endpoint_def
      wiring_def split: if_splits option.splits)

lemma wiring_process_front:
  "process_front E msg rest p = Inr p' \<Longrightarrow> wiring p' = wiring p"
  by (auto simp: process_front_def send_response_def cm_send_def set_endpoint_def wiring_def
      split: parsed.splits option.splits if_splits)

lemma wiring_process_loop:
  "process_loop E msgs p = Inr p' \<Longrightarrow> wiring p' = wiring p"
proof (induction msgs arbitrary: p)
  case Nil
  then show ?case by simp
next
  case (Cons msg rest)
  then show ?case
    by (auto split: sum.splits dest: wiring_process_front)
qed

lemma wiring_process_requests:
  "process_requests E p = Inr p' \<Longrightarrow> wiring p' = wiring p"
  by (auto simp: process_requests_def split: if_splits dest: wiring_process_loop)

lemma wiring_register: "wiring (register_callbacks E p) = wiring p"
  by (simp add: register_callbacks_def wiring_def)

lemma wiring_step:
  "step E x p = Inr p' \<Longrightarrow> x \<noteq> Connect \<Longrightarrow> wiring p' = wiring p"
  by (cases x)
    (auto simp: wiring_register wiring_deliver split: sum.splits option.splits
      dest: wiring_call_method wiring_call_notification wiring_process_requests)

subsection \<open>The pointers of the endpoint\<close>

lemma wired_wiring: "wiring p' = wiring p \<Longrightarrow> wired p' = wired p"
  by (simp add: wiring_def wired_def)

lemma can_connect_wiring: "wiring p' = wiring p \<Longrightarrow> can_connect E p' = can_connect E p"
  by (simp add: wiring_def can_connect_def)

lemma wired_connect: "wired p \<Longrightarrow> wired (connect E p)"
  by (auto simp: wired_def connect_def Communicator_connect_def endpoint_connect_def Let_def
      split: option.splits)

lemma run_keeps_wired: "wired p \<Longrightarrow> run E xs p = Inr p' \<Longrightarrow> wired p'"
proof (induction xs arbitrary: p)
  case Nil
  then show ?case by simp
next
  case (Cons x xs)
  from Cons.prems obtain q where q: "step E x p = Inr q" and r: "run E xs q = Inr p'"
    by (auto split: sum.splits)
  have "wired q"
  proof (cases "x = Connect")
    case True
    with q Cons.prems(1) show ?thesis by (auto simp: wired_connect)
  next
    case False
    from wired_wiring [OF wiring_step [OF q False]] Cons.prems(1) show ?thesis by simp
  qed
  with Cons.IH r show ?case by blast
qed

lemma connect_unwired_yes:
  assumes "client_metadata (endpoint (communication p)) = None" and "can_connect E p"
  shows "wired (connect E p)"
  using assms
  by (simp add: connect_def Communicator_connect_def endpoint_connect_def Let_def is_open_def
      can_connect_def wired_def)

lemma connect_unwired_no:
  assumes "client_metadata (endpoint (communication p)) = None" and "\<not> can_connect E p"
  shows "client_metadata (endpoint (communication (connect E p))) = None
            \<and> \<not> can_connect E (connect E p)"
proof (cases "use_avalon (communication p)")
  case False
  with assms show ?thesis
    by (simp add: connect_def Communicator_connect_def can_connect_def)
next
  case True
  with assms obtain ec where "get_connection E (websocket_url (communication p)) = Some ec"
    by (auto simp: can_connect_def)
  with assms True show ?thesis
    by (simp add: connect_def Communicator_connect_def endpoint_connect_def Let_def is_open_def
      can_connect_def)
qed

lemma run_wired_iff:
  "client_metadata (endpoint (communication p)) = None \<Longrightarrow> run E xs p = Inr p' \<Longrightarrow>
   wired p' = (can_connect E p \<and> Connect \<in> set xs)"
proof (induction xs arbitrary: p)
  case Nil
  then show ?case by (simp add: wired_def)
next
  case (Cons x xs)
  from Cons.prems obtain q where q: "step E x p = Inr q" and r: "run E xs q = Inr p'"
    by (auto split: sum.splits)
  show ?case
  proof (cases "x = Connect")
    case False
    from wiring_step [OF q False] Cons.prems(1)
    have "client_metadata (endpoint (communication q)) = None" and "can_connect E q = can_connect E p"
      by (simp_all add: wiring_def can_connect_def)
    with Cons.IH [OF _ r] False show ?thesis by simp
  next
    case True
    with q have q': "q = connect E p" by simp
    show ?thesis
    proof (cases "can_connect E p")
      case yes: True
      with connect_unwired_yes [OF Cons.prems(1), of E] q' have "wired q" by simp
      from run_keeps_wired [OF this r] yes True show ?thesis by simp
    next
      case no: False
      with connect_unwired_no [OF Cons.prems(1), of E] q'
      have "client_metadata (endpoint (communication q)) = None" and "\<not> can_connect E q"
        by simp_all
      with Cons.IH [OF _ r] no show ?thesis by simp
    qed
  qed
qed

lemma close_connection_Inr_iff: "(\<exists>ep'. close_connection (endpoint (communication p)) = Inr ep') = wired p"
  by (auto simp: close_connection_def cm_send_def Let_def wired_def split: option.splits thread.splits)

text \<open>
  Claim C10. \<^verbatim>\<open>close_connection\<close> (which the destructor of the endpoint runs too)
  reads the status through the metadata pointer and joins the thread without testing
  either pointer. So it gets past its first dereference only when both objects exist,
  and on a bridge that starts with a fresh endpoint it returns exactly when an earlier
  \<^verbatim>\<open>connect()\<close> of a usable bridge got past \<^verbatim>\<open>get_connection\<close>, which is
  where the metadata is created (the thread is started just before).
\<close>

theorem close_connection_needs_connect:
  "(close_connection ep \<noteq> Inl NullPointer \<longrightarrow>
      client_metadata ep \<noteq> None \<and> m_thread ep \<noteq> None)
   \<and> (endpoint c = new_endpoint \<and> run E xs (globals_start c) = Inr p \<longrightarrow>
      (\<exists>ep'. close_connection (endpoint (communication p)) = Inr ep')
      = (use_avalon c \<and> get_connection E (websocket_url c) = None \<and> Connect \<in> set xs))"
proof -
  have one: "close_connection ep \<noteq> Inl NullPointer \<longrightarrow>
      client_metadata ep \<noteq> None \<and> m_thread ep \<noteq> None"
    by (auto simp: close_connection_def Let_def cm_send_def split: option.splits if_splits)
  have two: "(\<exists>ep'. close_connection (endpoint (communication p)) = Inr ep')
      = (use_avalon c \<and> get_connection E (websocket_url c) = None \<and> Connect \<in> set xs)"
    if fresh: "endpoint c = new_endpoint" and r: "run E xs (globals_start c) = Inr p"
  proof -
    from fresh have none: "client_metadata (endpoint (communication (globals_start c))) = None"
      by (simp add: globals_start_def new_endpoint_def)
    have "can_connect E (globals_start c) = (use_avalon c \<and> get_connection E (websocket_url c) = None)"
      by (simp add: can_connect_def globals_start_def)
    with run_wired_iff [OF none r] show ?thesis
      by (simp add: close_connection_Inr_iff)
  qed
  from one two show ?thesis by blast
qed

text \<open>A bridge that says it is connected is usable and has its metadata object.\<close>

lemma connected_ok_wiring: "wiring p' = wiring p \<Longrightarrow> connected_ok p' = connected_ok p"
  by (simp add: wiring_def connected_ok_def)

lemma connected_ok_connect: "connected_ok p \<Longrightarrow> connected_ok (connect E p)"
  by (auto simp: connected_ok_def connect_def Communicator_connect_def endpoint_connect_def Let_def
      is_open_def split: option.splits if_splits)

lemma run_connected_ok: "connected_ok p \<Longrightarrow> run E xs p = Inr p' \<Longrightarrow> connected_ok p'"
proof (induction xs arbitrary: p)
  case Nil
  then show ?case by simp
next
  case (Cons x xs)
  from Cons.prems obtain q where q: "step E x p = Inr q" and r: "run E xs q = Inr p'"
    by (auto split: sum.splits)
  have "connected_ok q"
  proof (cases "x = Connect")
    case True
    with q Cons.prems(1) show ?thesis by (auto simp: connected_ok_connect)
  next
    case False
    from connected_ok_wiring [OF wiring_step [OF q False]] Cons.prems(1) show ?thesis by simp
  qed
  with Cons.IH r show ?case by blast
qed

lemma connected_ok_start: "Communicator_new g = Inr c \<Longrightarrow> connected_ok (globals_start c)"
  by (auto simp: Communicator_new_def connected_ok_def globals_start_def split: option.splits)

theorem connected_has_metadata:
  assumes "Communicator_new g = Inr c" and "run E xs (globals_start c) = Inr p"
    and "connected (communication p)"
  shows "use_avalon (communication p) \<and> client_metadata (endpoint (communication p)) \<noteq> None"
  using run_connected_ok [OF connected_ok_start [OF assms(1)] assms(2)] assms(3)
  by (simp add: connected_ok_def)

subsection \<open>Draining the queue\<close>

lemma parse_unregistered:
  "do_parse E msg = Entity (Some (ERequest r)) \<Longrightarrow> request_callbacks p (req_method r) = None \<Longrightarrow>
   parse E p msg = Entity (Some (ERequest r))"
  by (simp add: parse_def)

lemma send_response_metadata:
  "client_metadata (endpoint (communication p)) \<noteq> None \<Longrightarrow>
   send_response e (endpoint (communication p)) = Inr (cm_send (Dump_entity e) (endpoint (communication p)))"
  by (auto simp: send_response_def)

lemma set_endpoint_cm_send: "set_endpoint (cm_send f (endpoint (communication p))) p = send_frame f p"
  by (simp add: set_endpoint_def send_frame_def)

lemma process_front_unregistered:
  assumes "do_parse E msg = Entity (Some (ERequest r))"
    and "request_callbacks p (req_method r) = None"
    and "client_metadata (endpoint (communication p)) \<noteq> None"
  shows "process_front E msg rest p =
      Inr ((send_frame (Dump_entity (EResponse (method_not_found r))) p)\<lparr>messages := rest\<rparr>)"
  using assms
  by (simp add: process_front_def parse_unregistered send_response_metadata set_endpoint_cm_send)

text \<open>The loop on a queue is the loop on its front part, then the loop on the rest.\<close>

lemma process_loop_append:
  "process_loop E (ahead @ behind) p =
     (case process_prefix E ahead behind p of
        Inl stop \<Rightarrow> Inl stop
      | Inr p' \<Rightarrow> process_loop E behind p')"
  by (induction ahead arbitrary: p) (simp_all split: sum.split)

lemma callbacks_process_front:
  "process_front E msg rest p = Inr p' \<Longrightarrow> request_callbacks p' = request_callbacks p"
  by (auto simp: process_front_def send_response_def cm_send_def set_endpoint_def
      split: parsed.splits option.splits if_splits)

lemma process_prefix_keeps:
  "process_prefix E ahead behind p = Inr p' \<Longrightarrow>
   wiring p' = wiring p \<and> request_callbacks p' = request_callbacks p"
proof (induction ahead arbitrary: p)
  case Nil
  then show ?case by simp
next
  case (Cons msg ahead)
  from Cons.prems obtain q where q: "process_front E msg (ahead @ behind) p = Inr q"
    and r: "process_prefix E ahead behind q = Inr p'"
    by (auto split: sum.splits)
  from Cons.IH [OF r] wiring_process_front [OF q] callbacks_process_front [OF q]
  show ?case by simp
qed

lemma process_prefix_unregistered:
  assumes "map (do_parse E) ahead = map (\<lambda>r. Entity (Some (ERequest r))) rs"
    and "\<forall>r\<in>set rs. request_callbacks p (req_method r) = None"
    and "client_metadata (endpoint (communication p)) \<noteq> None"
  shows "\<exists>p'. process_prefix E ahead behind p = Inr p'
           \<and> sent p' = sent p @ map (\<lambda>r. Dump_entity (EResponse (method_not_found r))) rs
           \<and> (if ahead = [] then p' = p else messages p' = behind)"
  using assms
proof (induction ahead arbitrary: p rs)
  case Nil
  then show ?case by simp
next
  case (Cons msg rest)
  from Cons.prems(1) obtain r rs' where rs: "rs = r # rs'"
    and r: "do_parse E msg = Entity (Some (ERequest r))"
    and rest: "map (do_parse E) rest = map (\<lambda>r. Entity (Some (ERequest r))) rs'"
    by (cases rs) auto
  define q where
    "q = (send_frame (Dump_entity (EResponse (method_not_found r))) p)\<lparr>messages := rest @ behind\<rparr>"
  from Cons.prems(2) rs have "request_callbacks p (req_method r) = None" by simp
  from process_front_unregistered [OF r this Cons.prems(3), of "rest @ behind"]
  have turn: "process_front E msg (rest @ behind) p = Inr q" by (simp add: q_def)
  have q: "\<forall>r\<in>set rs'. request_callbacks q (req_method r) = None"
    "client_metadata (endpoint (communication q)) \<noteq> None"
    "sent q = sent p @ [Dump_entity (EResponse (method_not_found r))]"
    "messages q = rest @ behind"
    using Cons.prems(2,3) rs
    by (simp_all add: q_def send_frame_def cm_send_def sent_def)
  from Cons.IH [OF rest q(1,2)] obtain p' where p': "process_prefix E rest behind q = Inr p'"
    "sent p' = sent q @ map (\<lambda>r. Dump_entity (EResponse (method_not_found r))) rs'"
    "if rest = [] then p' = q else messages p' = behind"
    by blast
  from p'(3) q(4) have "messages p' = behind" by (cases "rest = []") simp_all
  with turn p'(1,2) q(3) rs show ?case by simp
qed

lemma process_loop_unregistered:
  assumes "map (do_parse E) msgs = map (\<lambda>r. Entity (Some (ERequest r))) rs"
    and "\<forall>r\<in>set rs. request_callbacks p (req_method r) = None"
    and "client_metadata (endpoint (communication p)) \<noteq> None"
  shows "\<exists>p'. process_loop E msgs p = Inr p'
           \<and> sent p' = sent p @ map (\<lambda>r. Dump_entity (EResponse (method_not_found r))) rs
           \<and> (if msgs = [] then p' = p else messages p' = [])"
proof -
  from process_prefix_unregistered [OF assms, of "[]"] obtain p' where
    p': "process_prefix E msgs [] p = Inr p'"
    "sent p' = sent p @ map (\<lambda>r. Dump_entity (EResponse (method_not_found r))) rs"
    "if msgs = [] then p' = p else messages p' = []"
    by blast
  from p'(1) process_loop_append [of E msgs "[]" p]
  have "process_loop E msgs p = Inr p'" by simp
  with p'(2,3) show ?thesis by blast
qed

text \<open>A queue of requests none of which has a registered callback is drained to the
  end: each request gets the error response "Method ... not found" with code
  \<open>-32601\<close> and its own id, in the order of the queue.\<close>

theorem drain_answers_unregistered_requests:
  assumes "map (do_parse E) msgs = map (\<lambda>r. Entity (Some (ERequest r))) rs"
    and "\<forall>r\<in>set rs. request_callbacks p (req_method r) = None"
    and "client_metadata (endpoint (communication p)) \<noteq> None"
    and "messages p = msgs"
  shows "(\<exists>p'. process_loop E msgs p = Inr p'
           \<and> (use_avalon (communication p) \<and> connected (communication p)
                \<longrightarrow> process_requests E p = Inr p')
           \<and> sent p' = sent p @ map (\<lambda>r. Dump_entity (EResponse (method_not_found r))) rs
           \<and> messages p' = [])
       \<and> (\<forall>r\<in>set rs. resp_id (method_not_found r) = req_id r
             \<and> map_option err_code (resp_error (method_not_found r)) = Some (- 32601))"
proof -
  from process_loop_unregistered [OF assms(1-3)] obtain p' where
    p': "process_loop E msgs p = Inr p'"
    "sent p' = sent p @ map (\<lambda>r. Dump_entity (EResponse (method_not_found r))) rs"
    "if msgs = [] then p' = p else messages p' = []"
    by blast
  from p'(3) assms(4) have empty: "messages p' = []" by (cases "msgs = []") simp_all
  have "process_requests E p = Inr p'"
    if "use_avalon (communication p) \<and> connected (communication p)"
  proof (cases "msgs = []")
    case True
    with p'(3) assms(4) show ?thesis by (simp add: process_requests_def)
  next
    case False
    with that p'(1) assms(4) show ?thesis by (simp add: process_requests_def)
  qed
  moreover have "\<forall>r\<in>set rs. resp_id (method_not_found r) = req_id r
             \<and> map_option err_code (resp_error (method_not_found r)) = Some (- 32601)"
    by (simp add: method_not_found_def Response_error_def)
  ultimately show ?thesis using p'(1,2) empty by blast
qed

lemma parse_notification:
  "do_parse E msg = Entity (Some (ENotification n)) \<Longrightarrow> parse E p msg = Entity (Some (ENotification n))"
  by (simp add: parse_def)

text \<open>
  Claim C4. No frame goes out for a notification. The transport thread only queues it.
  When the drain loop gets to it, the cast to Request fails and the loop calls through
  the null pointer: the drain stops there, in the state it had reached, so what has been
  handed to the transport is what the messages ahead of the notification got.
\<close>

theorem notification_never_answered:
  assumes "do_parse E msg = Entity (Some (ENotification n))"
  shows "process_message E msg p = p\<lparr>messages := messages p @ [msg]\<rparr>
       \<and> sent (process_message E msg p) = sent p
       \<and> process_front E msg rest p = Inl (NullPointer, p)
       \<and> (process_prefix E ahead (msg # rest) p = Inr p' \<longrightarrow>
            process_loop E (ahead @ msg # rest) p = Inl (NullPointer, p'))
       \<and> (use_avalon (communication p) \<and> connected (communication p)
            \<and> messages p = ahead @ msg # rest \<longrightarrow>
            process_requests E p = process_loop E (ahead @ msg # rest) p)"
proof -
  have front: "process_front E msg rest q = Inl (NullPointer, q)" for q
    using assms by (simp add: process_front_def parse_notification)
  have "process_loop E (ahead @ msg # rest) p = Inl (NullPointer, p')"
    if "process_prefix E ahead (msg # rest) p = Inr p'"
    using that front [of p'] by (simp add: process_loop_append)
  moreover have "process_message E msg p = p\<lparr>messages := messages p @ [msg]\<rparr>"
    and "sent (process_message E msg p) = sent p"
    using assms by (simp_all add: process_message_def sent_def)
  moreover have "process_requests E p = process_loop E (ahead @ msg # rest) p"
    if "use_avalon (communication p) \<and> connected (communication p) \<and> messages p = ahead @ msg # rest"
    using that by (simp add: process_requests_def)
  ultimately show ?thesis using front [of p] by blast
qed

text \<open>
  Claim C5 says that every queued request whose method is not registered gets the error
  response \<open>-32601\<close>. The code on a queue that holds a notification: the requests
  ahead of the notification (none of them registered) get their error responses, then the
  drain stops at the notification, where the null pointer of the failed cast is used.
  The notification and everything behind it stay queued and nothing more is handed to
  the transport, so a request queued behind the notification is not answered.
\<close>

theorem request_behind_notification_unanswered:
  assumes "map (do_parse E) ahead = map (\<lambda>r. Entity (Some (ERequest r))) rs"
    and "\<forall>r\<in>set rs. request_callbacks p (req_method r) = None"
    and "do_parse E note = Entity (Some (ENotification n))"
    and "client_metadata (endpoint (communication p)) \<noteq> None"
    and "use_avalon (communication p)" and "connected (communication p)"
    and "messages p = ahead @ note # behind"
  shows "\<exists>p'. process_requests E p = Inl (NullPointer, p')
           \<and> sent p' = sent p @ map (\<lambda>r. Dump_entity (EResponse (method_not_found r))) rs
           \<and> messages p' = note # behind"
proof -
  from process_prefix_unregistered [OF assms(1,2,4), of "note # behind"] obtain p' where
    p': "process_prefix E ahead (note # behind) p = Inr p'"
    "sent p' = sent p @ map (\<lambda>r. Dump_entity (EResponse (method_not_found r))) rs"
    "if ahead = [] then p' = p else messages p' = note # behind"
    by blast
  from p'(3) assms(7) have queue: "messages p' = note # behind"
    by (cases "ahead = []") simp_all
  have "process_front E note behind p' = Inl (NullPointer, p')"
    using assms(3) by (simp add: process_front_def parse_notification)
  then have "process_loop E (note # behind) p' = Inl (NullPointer, p')" by simp
  with p'(1) process_loop_append [of E ahead "note # behind" p]
  have "process_loop E (ahead @ note # behind) p = Inl (NullPointer, p')" by simp
  with assms(5-7) have "process_requests E p = Inl (NullPointer, p')"
    by (simp add: process_requests_def)
  with p'(2) queue show ?thesis by blast
qed

subsection \<open>Inbound texts that are no entity\<close>

lemma sent_cerr: "sent (p\<lparr>cerr := x\<rparr>) = sent p"
  by (simp add: sent_def)

lemma cerr_send_frame: "cerr (send_frame f p) = cerr p"
  by (simp add: send_frame_def)

text \<open>
  Claim C6, as the code has it. What \<^verbatim>\<open>process_message\<close> does with a text depends
  on how parsing fails. A ParseErrorException is answered with its own serialisation,
  and any other RpcException (malformed JSON ends as one) is logged and answered with a
  parse error of code \<open>-32700\<close> built from its text. A RequestException is answered
  with its own error object, whose code is the exception's and not \<open>-32700\<close>. A
  text for which the parser returns no entity, or a batch, is dropped without reply and
  without a log line. Any other exception is logged and the text dropped without reply.
\<close>

theorem process_message_replies:
  "(do_parse E msg = Throws (ParseErrorException e) \<longrightarrow>
      process_message E msg p = send_frame (Dump_exception (ParseErrorException e)) p)
   \<and> (do_parse E msg = Throws (RpcException w) \<longrightarrow>
      sent (process_message E msg p) = sent p @ [Dump_exception (ParseErrorException_what w)]
      \<and> frame_error_code (Dump_exception (ParseErrorException_what w)) = Some (- 32700)
      \<and> cerr (process_message E msg p) = cerr p @ [''RpcException: '' @ w])
   \<and> (do_parse E msg = Throws (RequestException e i) \<longrightarrow>
      process_message E msg p = send_frame (Dump_exception (RequestException e i)) p
      \<and> frame_error_code (Dump_exception (RequestException e i)) = Some (err_code e))
   \<and> (do_parse E msg = Throws (std_exception w) \<longrightarrow>
      process_message E msg p = p\<lparr>cerr := cerr p @ [''Exception: '' @ w]\<rparr>
      \<and> sent (process_message E msg p) = sent p)
   \<and> (do_parse E msg = Entity None \<longrightarrow> process_message E msg p = p)
   \<and> (do_parse E msg = Entity (Some (EBatch b)) \<longrightarrow> process_message E msg p = p)"
  by (simp add: process_message_def sent_send_frame sent_cerr cerr_send_frame
      ParseErrorException_what_def)

subsection \<open>The polling loop\<close>

lemma after_Nil: "after E [] p = p"
  by (simp add: after_def)

lemma after_Cons: "after E (evs # sched) p = after E sched (deliver_all E evs p)"
  by (simp add: after_def)

text \<open>The loop returns at the first poll that finds an entry, with that entry.\<close>

lemma await_Some_iff:
  "await E n sched p = (Some r, p') \<longleftrightarrow>
     (\<exists>k\<le>length sched. p' = after E (take k sched) p \<and> responses p' n = Some r
        \<and> (\<forall>j<k. responses (after E (take j sched) p) n = None))"
proof (induction sched arbitrary: p)
  case Nil
  show ?case by (auto simp: after_Nil)
next
  case (Cons evs sched)
  show ?case
  proof (cases "responses p n")
    case (Some r')
    have "(\<exists>k\<le>length (evs # sched). p' = after E (take k (evs # sched)) p \<and> responses p' n = Some r
        \<and> (\<forall>j<k. responses (after E (take j (evs # sched)) p) n = None))
      = (p' = p \<and> r' = r)" (is "?L = ?R")
    proof
      assume ?L
      then obtain k where k: "p' = after E (take k (evs # sched)) p" "responses p' n = Some r"
        "\<forall>j<k. responses (after E (take j (evs # sched)) p) n = None" by blast
      have "k = 0"
      proof (rule ccontr)
        assume "k \<noteq> 0"
        with k(3) have "responses (after E (take 0 (evs # sched)) p) n = None" by blast
        with Some show False by (simp add: after_Nil)
      qed
      with k Some show ?R by (simp add: after_Nil)
    next
      assume ?R
      with Some show ?L by (intro exI [of _ 0]) (simp add: after_Nil)
    qed
    with Some show ?thesis by auto
  next
    case None
    have "(\<exists>k\<le>length (evs # sched). p' = after E (take k (evs # sched)) p \<and> responses p' n = Some r
        \<and> (\<forall>j<k. responses (after E (take j (evs # sched)) p) n = None))
      = (\<exists>k\<le>length sched. p' = after E (take k sched) (deliver_all E evs p) \<and> responses p' n = Some r
        \<and> (\<forall>j<k. responses (after E (take j sched) (deliver_all E evs p)) n = None))"
      (is "?L = ?R")
    proof
      assume ?L
      then obtain k where k: "k \<le> length (evs # sched)" "p' = after E (take k (evs # sched)) p"
        "responses p' n = Some r"
        "\<forall>j<k. responses (after E (take j (evs # sched)) p) n = None" by blast
      have "k \<noteq> 0"
      proof
        assume "k = 0"
        with k(2,3) None show False by (simp add: after_Nil)
      qed
      then obtain k' where k': "k = Suc k'" by (cases k) auto
      have "\<forall>j<k'. responses (after E (take j sched) (deliver_all E evs p)) n = None"
      proof (intro allI impI)
        fix j assume "j < k'"
        with k' have "Suc j < k" by simp
        with k(4) have "responses (after E (take (Suc j) (evs # sched)) p) n = None" by blast
        then show "responses (after E (take j sched) (deliver_all E evs p)) n = None"
          by (simp add: after_Cons)
      qed
      with k k' show ?R by (intro exI [of _ k']) (simp add: after_Cons)
    next
      assume ?R
      then obtain k where k: "k \<le> length sched" "p' = after E (take k sched) (deliver_all E evs p)"
        "responses p' n = Some r"
        "\<forall>j<k. responses (after E (take j sched) (deliver_all E evs p)) n = None" by blast
      have "\<forall>j<Suc k. responses (after E (take j (evs # sched)) p) n = None"
      proof (intro allI impI)
        fix j assume j: "j < Suc k"
        show "responses (after E (take j (evs # sched)) p) n = None"
        proof (cases j)
          case 0
          with None show ?thesis by (simp add: after_Nil)
        next
          case (Suc j')
          with j k(4) show ?thesis by (simp add: after_Cons)
        qed
      qed
      with k show ?L by (intro exI [of _ "Suc k"]) (simp add: after_Cons)
    qed
    with None Cons.IH [of "deliver_all E evs p"] show ?thesis by simp
  qed
qed

lemma await_None_iff:
  "await E n sched p = (None, p') \<longleftrightarrow>
     (p' = after E sched p \<and> (\<forall>j\<le>length sched. responses (after E (take j sched) p) n = None))"
proof (induction sched arbitrary: p)
  case Nil
  show ?case by (auto simp: after_Nil)
next
  case (Cons evs sched)
  show ?case
  proof (cases "responses p n")
    case (Some r')
    then have "\<not> (\<forall>j\<le>length (evs # sched). responses (after E (take j (evs # sched)) p) n = None)"
      by (auto intro!: exI [of _ 0] simp: after_Nil)
    with Some show ?thesis by auto
  next
    case None
    have "(\<forall>j\<le>length (evs # sched). responses (after E (take j (evs # sched)) p) n = None)
        = (\<forall>j\<le>length sched. responses (after E (take j sched) (deliver_all E evs p)) n = None)"
      (is "?L = ?R")
    proof
      assume l: ?L
      show ?R
      proof (intro allI impI)
        fix j assume "j \<le> length sched"
        then have "Suc j \<le> length (evs # sched)" by simp
        with l have "responses (after E (take (Suc j) (evs # sched)) p) n = None" by blast
        then show "responses (after E (take j sched) (deliver_all E evs p)) n = None"
          by (simp add: after_Cons)
      qed
    next
      assume r: ?R
      show ?L
      proof (intro allI impI)
        fix j assume j: "j \<le> length (evs # sched)"
        show "responses (after E (take j (evs # sched)) p) n = None"
        proof (cases j)
          case 0
          with None show ?thesis by (simp add: after_Nil)
        next
          case (Suc j')
          with j r show ?thesis by (simp add: after_Cons)
        qed
      qed
    qed
    with None Cons.IH [of "deliver_all E evs p"] show ?thesis by (simp add: after_Cons)
  qed
qed

subsection \<open>Calls and their responses\<close>

lemma call_method_usable:
  assumes "use_avalon (communication p)" and "connected (communication p)"
    and "client_metadata (endpoint (communication p)) \<noteq> None"
  shows "call_method E m ps sched p = Inr (await E (client_request_id p) sched (request_sent m ps p))"
  using assms
  by (auto simp: call_method_def send_request_def request_sent_def Let_def
      set_endpoint_def send_frame_def)

lemma call_method_disabled:
  "\<not> use_avalon (communication p) \<or> \<not> connected (communication p) \<Longrightarrow>
   call_method E m ps sched p = Inr (Some Response_default, p)"
  by (auto simp: call_method_def)

lemma process_message_response:
  "do_parse E msg = Entity (Some (EResponse R)) \<Longrightarrow>
   process_message E msg q = q\<lparr>responses := (responses q)(int_id (resp_id R) \<mapsto> R)\<rparr>"
  by (simp add: process_message_def)

text \<open>
  Claim C2, as the code has it. On a connected bridge \<^verbatim>\<open>call_method\<close> takes the id
  \<open>n\<close>, sends the request and polls the table. It blocks as long as the table has no
  entry for \<open>n\<close>, and returns at the first poll that finds one, with the response
  stored there at that moment. A response that arrives is stored under its id whether or
  not a call for that id is pending, and it replaces what was stored under that id
  before.
\<close>

theorem call_method_returns_first_entry:
  assumes "use_avalon (communication p)" and "connected (communication p)"
    and "client_metadata (endpoint (communication p)) \<noteq> None"
  shows "(call_method E m ps sched p = Inr (Some R, p') \<longleftrightarrow>
           (\<exists>k\<le>length sched. p' = after E (take k sched) (request_sent m ps p)
              \<and> responses p' (client_request_id p) = Some R
              \<and> (\<forall>j<k. responses (after E (take j sched) (request_sent m ps p))
                         (client_request_id p) = None)))
       \<and> (call_method E m ps sched p = Inr (None, p') \<longleftrightarrow>
           (p' = after E sched (request_sent m ps p)
              \<and> (\<forall>j\<le>length sched. responses (after E (take j sched) (request_sent m ps p))
                         (client_request_id p) = None)))
       \<and> (do_parse E msg = Entity (Some (EResponse R')) \<longrightarrow>
           process_message E msg q = q\<lparr>responses := (responses q)(int_id (resp_id R') \<mapsto> R')\<rparr>)"
  by (simp add: call_method_usable [OF assms] await_Some_iff await_None_iff process_message_response)

text \<open>The table never loses an entry.\<close>

lemma dom_send_frame: "responses (send_frame f p) = responses p"
  by (simp add: send_frame_def)

lemma dom_process_message: "dom (responses p) \<subseteq> dom (responses (process_message E msg p))"
  by (auto simp: process_message_def dom_send_frame
      split: parsed.split thrown.split option.split entity.split)

lemma dom_deliver: "dom (responses p) \<subseteq> dom (responses (deliver E ev p))"
proof (cases ev)
  case (Message is_text payload)
  then show ?thesis using dom_process_message by (simp add: on_message_def)
qed (simp_all add: map_metadata_def set_endpoint_def)

lemma dom_deliver_all: "dom (responses p) \<subseteq> dom (responses (deliver_all E evs p))"
  unfolding deliver_all_def
proof (induction evs arbitrary: p)
  case Nil
  show ?case by simp
next
  case (Cons ev evs)
  from dom_deliver [of p E ev] Cons [of "deliver E ev p"] show ?case by simp
qed

lemma dom_after: "dom (responses p) \<subseteq> dom (responses (after E sched p))"
  unfolding after_def
proof (induction sched arbitrary: p)
  case Nil
  show ?case by simp
next
  case (Cons evs sched)
  from dom_deliver_all [of p E evs] Cons [of "deliver_all E evs p"] show ?case by simp
qed

lemma responses_request_sent: "responses (request_sent m ps p) = responses p"
  by (simp add: request_sent_def send_frame_def)

lemma dom_await: "dom (responses p) \<subseteq> dom (responses (snd (await E n sched p)))"
proof (induction sched arbitrary: p)
  case Nil
  show ?case by simp
next
  case (Cons evs sched)
  from dom_deliver_all [of p E evs] Cons [of "deliver_all E evs p"] show ?case
    by (auto split: option.split)
qed

lemma dom_call_method:
  assumes "call_method E m ps sched p = Inr (r, p')"
  shows "dom (responses p) \<subseteq> dom (responses p')"
proof (cases "\<not> use_avalon (communication p) \<or> \<not> connected (communication p)")
  case True
  with assms show ?thesis by (auto simp: call_method_def)
next
  case False
  with assms obtain ep where
    "await E (client_request_id p) sched
       (set_endpoint ep (p\<lparr>client_request_id := client_request_id p + 1\<rparr>)) = (r, p')"
    by (auto simp: call_method_def Let_def split: sum.splits)
  then have "p' = snd (await E (client_request_id p) sched
             (set_endpoint ep (p\<lparr>client_request_id := client_request_id p + 1\<rparr>)))"
    by simp
  with dom_await [of "set_endpoint ep (p\<lparr>client_request_id := client_request_id p + 1\<rparr>)" E
      "client_request_id p" sched]
  show ?thesis by (simp add: set_endpoint_def)
qed

lemma responses_call_notification:
  "call_notification m ps p = Inr p' \<Longrightarrow> responses p' = responses p"
  by (auto simp: call_notification_def set_endpoint_def split: if_splits sum.splits)

lemma responses_process_front:
  "process_front E msg rest p = Inr p' \<Longrightarrow> responses p' = responses p"
  by (auto simp: process_front_def set_endpoint_def split: parsed.splits option.splits if_splits sum.splits)

lemma responses_process_loop:
  "process_loop E msgs p = Inr p' \<Longrightarrow> responses p' = responses p"
proof (induction msgs arbitrary: p)
  case Nil
  then show ?case by simp
next
  case (Cons msg rest)
  from Cons.prems obtain q where q: "process_front E msg rest p = Inr q"
    and r: "process_loop E rest q = Inr p'"
    by (auto split: sum.splits)
  from Cons.IH [OF r] responses_process_front [OF q] show ?case by simp
qed

lemma dom_step:
  assumes "step E x p = Inr p'"
  shows "dom (responses p) \<subseteq> dom (responses p')"
proof (cases x)
  case Connect
  with assms show ?thesis by (auto simp: connect_def)
next
  case Register
  with assms show ?thesis by (auto simp: register_callbacks_def)
next
  case (Transport ev)
  with assms dom_deliver [of p E ev] show ?thesis by auto
next
  case (Call m ps sched)
  with assms obtain r where "call_method E m ps sched p = Inr (r, p')"
    by (auto split: sum.splits option.splits)
  then show ?thesis by (rule dom_call_method)
next
  case (Notify m ps)
  with assms responses_call_notification [of m ps p p'] show ?thesis by simp
next
  case Drain
  with assms have "responses p' = responses p"
    by (auto simp: process_requests_def split: if_splits dest: responses_process_loop)
  then show ?thesis by simp
qed

lemma dom_run: "run E xs p = Inr p' \<Longrightarrow> dom (responses p) \<subseteq> dom (responses p')"
proof (induction xs arbitrary: p)
  case Nil
  then show ?case by simp
next
  case (Cons x xs)
  from Cons.prems obtain q where q: "step E x p = Inr q" and r: "run E xs q = Inr p'"
    by (auto split: sum.splits)
  from dom_step [OF q] Cons.IH [OF r] show ?case by blast
qed

text \<open>
  Claim C3, as the code has it. When a call for id \<open>n\<close> has returned, the entry for
  \<open>n\<close> is still in the table: the call only reads it. No operation of the bridge
  takes an entry out of the table, so no run of the plugin makes the table lose one.
\<close>

theorem call_method_leaves_entry:
  assumes "use_avalon (communication p)" and "connected (communication p)"
    and "client_metadata (endpoint (communication p)) \<noteq> None"
    and "call_method E m ps sched p = Inr (Some R, p')"
  shows "responses p' (client_request_id p) = Some R
       \<and> dom (responses p) \<subseteq> dom (responses p')
       \<and> (run E xs p' = Inr p'' \<longrightarrow> client_request_id p \<in> dom (responses p''))"
proof -
  from assms(4) call_method_usable [OF assms(1-3), of E m ps sched]
  have "await E (client_request_id p) sched (request_sent m ps p) = (Some R, p')" by simp
  then obtain k where "p' = after E (take k sched) (request_sent m ps p)"
    and here: "responses p' (client_request_id p) = Some R"
    by (auto simp: await_Some_iff)
  with dom_after [of "request_sent m ps p" E "take k sched"]
  have grown: "dom (responses p) \<subseteq> dom (responses p')"
    by (simp add: responses_request_sent)
  have "client_request_id p \<in> dom (responses p'')" if "run E xs p' = Inr p''"
    using dom_run [OF that] here by blast
  with here grown show ?thesis by blast
qed

lemma demo_open_usable:
  "use_avalon (communication demo_open)" "connected (communication demo_open)"
  "client_metadata (endpoint (communication demo_open)) \<noteq> None"
  "client_request_id demo_open = 1" "messages demo_open = []" "responses demo_open = Map.empty"
  "sent demo_open = []" "request_callbacks demo_open ''ping'' = None"
  "request_callbacks demo_open ''no_such_tool'' = None"
  by (simp_all add: demo_open_eq sent_def)

lemma demo_deliver_message:
  "deliver demo_env (Message True msg) demo_open = process_message demo_env msg demo_open"
  by (simp add: demo_open_usable on_message_def)

text \<open>
  Against claim C2 as stated: two responses for id 1 arrive before the caller's next
  poll, and the call returns the second one; a response for id 7, which nobody awaits,
  is stored.
\<close>

theorem second_response_replaces_first:
  "map_sum id fst
     (call_method demo_env ''workfiles_tool'' (JArray [])
        [[Message True text_first, Message True text_second]] demo_open)
     = Inr (Some response_second)
   \<and> response_second \<noteq> response_first
   \<and> responses demo_open 7 = None
   \<and> responses (deliver demo_env (Message True text_stray) demo_open) 7 = Some response_stray"
proof -
  have "responses (request_sent ''workfiles_tool'' (JArray []) demo_open) 1 = None"
    by (simp add: responses_request_sent demo_open_usable)
  moreover have "client_metadata (endpoint (communication (request_sent ''workfiles_tool'' (JArray []) demo_open))) \<noteq> None"
    by (simp add: request_sent_def send_frame_def cm_send_def demo_open_usable)
  ultimately have "fst (await demo_env 1 [[Message True text_first, Message True text_second]]
      (request_sent ''workfiles_tool'' (JArray []) demo_open)) = Some response_second"
    by (simp add: deliver_all_def on_message_def process_message_def demo_env_simps
        demo_parse_simps response_first_def response_second_def Response_result_def Id_of_int_def)
  then have "map_sum id fst
     (call_method demo_env ''workfiles_tool'' (JArray [])
        [[Message True text_first, Message True text_second]] demo_open)
     = Inr (Some response_second)"
    by (simp add: call_method_usable demo_open_usable)
  moreover have "response_second \<noteq> response_first"
    by (simp add: response_first_def response_second_def Response_result_def)
  moreover have "responses (deliver demo_env (Message True text_stray) demo_open) 7 = Some response_stray"
    unfolding demo_deliver_message
    by (simp add: process_message_def demo_env_simps demo_parse_simps
        response_stray_def Response_result_def Id_of_int_def)
  ultimately show ?thesis by (simp add: demo_open_usable)
qed

subsection \<open>The theorems at the concrete server\<close>

lemma demo_communicator_simps:
  "endpoint demo_communicator = new_endpoint" "use_avalon demo_communicator"
  "websocket_url demo_communicator = demo_url"
  "communication (globals_start demo_communicator) = demo_communicator"
  by (simp_all add: demo_communicator_def globals_start_def)

lemma demo_run: "run demo_env [Connect, Register, Transport (Opened ''aiohttp'')] (globals_start demo_communicator) = Inr demo_open"
  unfolding demo_open_def PI_Open_def by simp

theorem close_connection_needs_connect_witness:
  "close_connection new_endpoint = Inl NullPointer
   \<and> (\<exists>ep'. close_connection (endpoint (communication demo_open)) = Inr ep')"
proof -
  have a: "close_connection (endpoint (communication demo_open)) \<noteq> Inl NullPointer"
    by (simp add: demo_open_eq close_connection_def cm_send_def)
  have b: "endpoint demo_communicator = new_endpoint
      \<and> run demo_env [Connect, Register, Transport (Opened ''aiohttp'')] (globals_start demo_communicator) = Inr demo_open"
    using demo_run by (simp add: demo_communicator_simps)
  have c: "use_avalon demo_communicator \<and> get_connection demo_env (websocket_url demo_communicator) = None
      \<and> Connect \<in> set [Connect, Register, Transport (Opened ''aiohttp'')]"
    by (simp add: demo_communicator_simps demo_env_simps)
  have d: "close_connection new_endpoint = Inl NullPointer"
    by (simp add: close_connection_def new_endpoint_def)
  from a b c d close_connection_needs_connect
    [of "endpoint (communication demo_open)" demo_communicator demo_env
        "[Connect, Register, Transport (Opened ''aiohttp'')]" demo_open]
  show ?thesis by blast
qed

lemma demo_queue:
  "deliver_all demo_env (map (Message True) [text_unknown, text_note, text_ping]) demo_open
     = demo_open\<lparr>messages := [text_unknown, text_note, text_ping]\<rparr>"
  "deliver_all demo_env (map (Message True) [text_unknown, text_ping]) demo_open
     = demo_open\<lparr>messages := [text_unknown, text_ping]\<rparr>"
  "deliver_all demo_env (map (Message True) [text_ping, text_note, text_unknown]) demo_open
     = demo_open\<lparr>messages := [text_ping, text_note, text_unknown]\<rparr>"
  by (simp_all add: deliver_all_def on_message_def process_message_def demo_env_simps
      demo_parse_simps demo_open_usable)

lemma demo_queue_simps:
  "use_avalon (communication (demo_open\<lparr>messages := ms\<rparr>))"
  "connected (communication (demo_open\<lparr>messages := ms\<rparr>))"
  "client_metadata (endpoint (communication (demo_open\<lparr>messages := ms\<rparr>))) \<noteq> None"
  "request_callbacks (demo_open\<lparr>messages := ms\<rparr>) ''ping'' = None"
  "request_callbacks (demo_open\<lparr>messages := ms\<rparr>) ''no_such_tool'' = None"
  "messages (demo_open\<lparr>messages := ms\<rparr>) = ms"
  by (simp_all add: demo_open_usable)

lemma demo_turn_unknown:
  "process_prefix demo_env [text_unknown] behind (demo_open\<lparr>messages := ms\<rparr>)
     = Inr ((send_frame (Dump_entity (EResponse (method_not_found request_unknown))) demo_open)
              \<lparr>messages := behind\<rparr>)"
proof -
  have "do_parse demo_env text_unknown = Entity (Some (ERequest request_unknown))"
    and "request_callbacks (demo_open\<lparr>messages := ms\<rparr>) (req_method request_unknown) = None"
    by (simp_all add: demo_env_simps demo_parse_simps demo_open_usable request_unknown_def)
  from process_front_unregistered [OF this demo_queue_simps(3), of behind]
  show ?thesis by (simp add: send_frame_def)
qed

theorem drain_answers_unregistered_requests_witness:
  "map_sum id sent
     (process_requests demo_env
        (deliver_all demo_env (map (Message True) [text_unknown, text_ping]) demo_open))
     = Inr [Dump_entity (EResponse (method_not_found request_unknown)),
            Dump_entity (EResponse (method_not_found request_ping))]
   \<and> resp_id (method_not_found request_ping) = Id_of_int 4
   \<and> map_option err_code (resp_error (method_not_found request_ping)) = Some (- 32601)"
proof -
  define Q where "Q = demo_open\<lparr>messages := [text_unknown, text_ping]\<rparr>"
  have h: "map (do_parse demo_env) [text_unknown, text_ping]
      = map (\<lambda>r. Entity (Some (ERequest r))) [request_unknown, request_ping]"
    "\<forall>r\<in>set [request_unknown, request_ping]. request_callbacks Q (req_method r) = None"
    "client_metadata (endpoint (communication Q)) \<noteq> None"
    "messages Q = [text_unknown, text_ping]"
    by (simp_all add: Q_def demo_env_simps demo_parse_simps demo_open_usable request_ping_def
        request_unknown_def)
  have guard: "use_avalon (communication Q) \<and> connected (communication Q)"
    and unsent: "sent Q = []"
    by (simp_all add: Q_def demo_open_usable sent_def demo_open_usable [unfolded sent_def])
  have inst: "(\<exists>p'. process_loop demo_env [text_unknown, text_ping] Q = Inr p'
           \<and> (use_avalon (communication Q) \<and> connected (communication Q)
                \<longrightarrow> process_requests demo_env Q = Inr p')
           \<and> sent p' = sent Q @ map (\<lambda>r. Dump_entity (EResponse (method_not_found r)))
                 [request_unknown, request_ping]
           \<and> messages p' = [])
       \<and> (\<forall>r\<in>set [request_unknown, request_ping]. resp_id (method_not_found r) = req_id r
             \<and> map_option err_code (resp_error (method_not_found r)) = Some (- 32601))"
    by (rule drain_answers_unregistered_requests [OF h])
  from inst guard obtain p' where run: "process_requests demo_env Q = Inr p'"
    and out: "sent p' = sent Q @ map (\<lambda>r. Dump_entity (EResponse (method_not_found r)))
                 [request_unknown, request_ping]"
    by blast
  from inst have ping: "resp_id (method_not_found request_ping) = req_id request_ping"
    "map_option err_code (resp_error (method_not_found request_ping)) = Some (- 32601)"
    by simp_all
  have "req_id request_ping = Id_of_int 4" by (simp add: request_ping_def)
  with run out unsent ping show ?thesis unfolding demo_queue Q_def [symmetric] by simp
qed

theorem request_behind_notification_unanswered_witness:
  "(case process_requests demo_env
      (deliver_all demo_env (map (Message True) [text_ping, text_note, text_unknown]) demo_open) of
      Inl (e, p') \<Rightarrow> e = NullPointer
        \<and> sent p' = [Dump_entity (EResponse (method_not_found request_ping))]
        \<and> messages p' = [text_note, text_unknown]
    | Inr p' \<Rightarrow> False)
   \<and> do_parse demo_env text_unknown = Entity (Some (ERequest request_unknown))
   \<and> request_callbacks demo_open (req_method request_unknown) = None"
proof -
  define Q where "Q = demo_open\<lparr>messages := [text_ping, text_note, text_unknown]\<rparr>"
  have h: "map (do_parse demo_env) [text_ping] = map (\<lambda>r. Entity (Some (ERequest r))) [request_ping]"
    "\<forall>r\<in>set [request_ping]. request_callbacks Q (req_method r) = None"
    "do_parse demo_env text_note = Entity (Some (ENotification note_progress))"
    "client_metadata (endpoint (communication Q)) \<noteq> None"
    "use_avalon (communication Q)" "connected (communication Q)"
    "messages Q = [text_ping] @ text_note # [text_unknown]"
    by (simp_all add: Q_def demo_env_simps demo_parse_simps demo_open_usable request_ping_def)
  have more: "sent Q = []"
    "do_parse demo_env text_unknown = Entity (Some (ERequest request_unknown))"
    "request_callbacks demo_open (req_method request_unknown) = None"
    by (simp_all add: Q_def demo_env_simps demo_parse_simps demo_open_usable request_unknown_def
        sent_def demo_open_usable [unfolded sent_def])
  from request_behind_notification_unanswered [OF h] obtain p' where
    "process_requests demo_env Q = Inl (NullPointer, p')"
    "sent p' = sent Q @ map (\<lambda>r. Dump_entity (EResponse (method_not_found r))) [request_ping]"
    "messages p' = [text_note, text_unknown]"
    by blast
  with more show ?thesis unfolding demo_queue Q_def [symmetric] by simp
qed

theorem notification_never_answered_witness:
  "process_requests demo_env
     (deliver_all demo_env (map (Message True) [text_unknown, text_note, text_ping]) demo_open)
   = Inl (NullPointer,
       (send_frame (Dump_entity (EResponse (method_not_found request_unknown))) demo_open)
          \<lparr>messages := [text_note, text_ping]\<rparr>)
   \<and> sent ((send_frame (Dump_entity (EResponse (method_not_found request_unknown))) demo_open)
          \<lparr>messages := [text_note, text_ping]\<rparr>)
     = [Dump_entity (EResponse (method_not_found request_unknown))]"
proof -
  define Q where "Q = demo_open\<lparr>messages := [text_unknown, text_note, text_ping]\<rparr>"
  define P' where "P' = (send_frame (Dump_entity (EResponse (method_not_found request_unknown))) demo_open)
              \<lparr>messages := [text_note, text_ping]\<rparr>"
  have h: "do_parse demo_env text_note = Entity (Some (ENotification note_progress))"
    by (simp add: demo_env_simps demo_parse_simps)
  have ahead: "process_prefix demo_env [text_unknown] (text_note # [text_ping]) Q = Inr P'"
    unfolding Q_def P'_def by (rule demo_turn_unknown)
  have guard: "use_avalon (communication Q) \<and> connected (communication Q)
      \<and> messages Q = [text_unknown] @ text_note # [text_ping]"
    by (simp add: Q_def demo_open_usable)
  from notification_never_answered [OF h, of Q "[text_ping]" "[text_unknown]" P'] ahead guard
  have "process_requests demo_env Q = Inl (NullPointer, P')" by simp
  moreover have "sent P' = [Dump_entity (EResponse (method_not_found request_unknown))]"
    by (simp add: P'_def sent_def send_frame_def cm_send_def demo_open_usable [unfolded sent_def])
  ultimately show ?thesis unfolding demo_queue Q_def [symmetric] P'_def [symmetric] by simp
qed

subsection \<open>A disabled bridge\<close>

lemma step_disabled:
  assumes "\<not> use_avalon (communication q)"
    and "client_metadata (endpoint (communication q)) = None"
  shows "\<exists>q'. step E x q = Inr q' \<and> sent q' = sent q
           \<and> client_request_id q' = client_request_id q
           \<and> \<not> use_avalon (communication q')
           \<and> client_metadata (endpoint (communication q')) = None"
proof (cases x)
  case Connect
  with assms show ?thesis by (simp add: connect_def Communicator_connect_def)
next
  case Register
  with assms show ?thesis by (simp add: register_callbacks_def sent_def)
next
  case (Transport ev)
  with assms show ?thesis
    by (cases ev) (simp_all add: map_metadata_def set_endpoint_def sent_def)
next
  case (Call m ps sched)
  with assms show ?thesis by (simp add: call_method_def)
next
  case (Notify m ps)
  with assms show ?thesis by (simp add: call_notification_def)
next
  case Drain
  with assms show ?thesis by (simp add: process_requests_def)
qed

lemma run_disabled:
  assumes "\<not> use_avalon (communication q)"
    and "client_metadata (endpoint (communication q)) = None"
  shows "\<exists>q'. run E xs q = Inr q' \<and> sent q' = sent q
           \<and> client_request_id q' = client_request_id q
           \<and> \<not> use_avalon (communication q')"
  using assms
proof (induction xs arbitrary: q)
  case Nil
  then show ?case by simp
next
  case (Cons x xs)
  from step_disabled [OF Cons.prems, of E x] obtain q1 where
    q1: "step E x q = Inr q1" "sent q1 = sent q" "client_request_id q1 = client_request_id q"
    "\<not> use_avalon (communication q1)" "client_metadata (endpoint (communication q1)) = None"
    by blast
  from Cons.IH [OF q1(4,5)] q1(1-3) show ?case by auto
qed

text \<open>While \<open>use_avalon\<close> is off, connecting, calling, notifying and draining leave
  the state as it is, and a call returns the default response at once.\<close>

theorem disabled_bridge_is_silent:
  assumes "\<not> use_avalon (communication q)"
  shows "connect E q = q
       \<and> call_method E m ps sched q = Inr (Some Response_default, q)
       \<and> call_notification m ps q = Inr q
       \<and> process_requests E q = Inr q"
  using assms
  by (simp add: connect_def Communicator_connect_def call_method_def call_notification_def
      process_requests_def)

text \<open>When the first \<^verbatim>\<open>connect()\<close> of a usable bridge ends in an initialisation
  error, both flags are off afterwards, and whatever the host and the transport do from
  then on, no run stops, nothing is handed to the transport and no request id is
  taken.\<close>

theorem failed_initialisation_disables_bridge:
  assumes "use_avalon (communication p)" and "endpoint (communication p) = new_endpoint"
    and "get_connection E (websocket_url (communication p)) \<noteq> None"
  shows "\<not> use_avalon (communication (connect E p))
       \<and> \<not> connected (communication (connect E p))
       \<and> (\<exists>q. run E xs (connect E p) = Inr q \<and> sent q = sent p
              \<and> client_request_id q = client_request_id p
              \<and> \<not> use_avalon (communication q))"
proof -
  from assms have dis: "\<not> use_avalon (communication (connect E p))"
    and off: "\<not> connected (communication (connect E p))"
    and md: "client_metadata (endpoint (communication (connect E p))) = None"
    and same: "sent (connect E p) = sent p" "client_request_id (connect E p) = client_request_id p"
    by (auto simp: connect_def Communicator_connect_def endpoint_connect_def Let_def is_open_def
        new_endpoint_def sent_def)
  from run_disabled [OF dis md, of E xs] same dis off show ?thesis by auto
qed

text \<open>With \<^verbatim>\<open>WEBSOCKET_URL\<close> set to the empty string the bridge starts disabled
  and stays silent in the same way.\<close>

theorem empty_url_disables_bridge:
  "\<exists>p. program_start (Some []) = Inr p \<and> \<not> use_avalon (communication p)
     \<and> (\<exists>q. run E xs p = Inr q \<and> sent q = [] \<and> client_request_id q = 1
           \<and> \<not> use_avalon (communication q))"
proof -
  let ?c = "\<lparr>websocket_url = [], connected = False, use_avalon = False, endpoint = new_endpoint\<rparr>"
  have start: "program_start (Some []) = Inr (globals_start ?c)"
    by (simp add: program_start_def Communicator_new_def)
  have dis: "\<not> use_avalon (communication (globals_start ?c))"
    and md: "client_metadata (endpoint (communication (globals_start ?c))) = None"
    and s: "sent (globals_start ?c) = []" "client_request_id (globals_start ?c) = 1"
    by (simp_all add: globals_start_def new_endpoint_def sent_def)
  from run_disabled [OF dis md, of E xs] start dis s show ?thesis by auto
qed

subsection \<open>A handshake that fails\<close>

lemma request_sent_simps:
  "client_request_id (request_sent m ps p) = client_request_id p + 1"
  "sent (request_sent m ps p) =
     sent p @ [Dump_entity (ERequest
        \<lparr>req_id = Id_of_int (client_request_id p), req_method = m, req_params = ps\<rparr>)]"
  by (simp_all add: request_sent_def send_frame_def sent_def cm_send_def)

text \<open>
  Claim C1 says that after any failed connect, a handshake failure reported by the fail
  event included, every call is a no-op. The code at that input: \<^verbatim>\<open>connect()\<close>
  gets past \<^verbatim>\<open>get_connection\<close>, so both flags are set; the fail event then only
  sets the status to "Failed". A call made afterwards takes request id 1, hands the
  request to the transport and, the transport staying silent, never returns; a
  notification made afterwards is handed to the transport as well.
\<close>

theorem handshake_failure_leaves_bridge_enabled:
  assumes "use_avalon c" and "get_connection E (websocket_url c) = None"
    and "endpoint c = new_endpoint"
  shows "use_avalon (communication (deliver E (Failed server reason) (connect E (globals_start c))))
       \<and> connected (communication (deliver E (Failed server reason) (connect E (globals_start c))))
       \<and> map_option m_status
            (client_metadata (endpoint (communication
               (deliver E (Failed server reason) (connect E (globals_start c))))))
          = Some ''Failed''
       \<and> call_method E m ps [] (deliver E (Failed server reason) (connect E (globals_start c)))
          = Inr (None, request_sent m ps (deliver E (Failed server reason) (connect E (globals_start c))))
       \<and> call_notification m ps (deliver E (Failed server reason) (connect E (globals_start c)))
          = Inr (send_frame (Dump_entity (ENotification \<lparr>ntf_method = m, ntf_params = ps\<rparr>))
                   (deliver E (Failed server reason) (connect E (globals_start c))))
       \<and> client_request_id
            (request_sent m ps (deliver E (Failed server reason) (connect E (globals_start c)))) = 2
       \<and> sent (request_sent m ps (deliver E (Failed server reason) (connect E (globals_start c))))
          = [Dump_entity (ERequest \<lparr>req_id = Id_of_int 1, req_method = m, req_params = ps\<rparr>)]"
proof -
  define P where "P = deliver E (Failed server reason) (connect E (globals_start c))"
  from assms have p: "P = (globals_start c)\<lparr>communication :=
      c\<lparr>connected := True, use_avalon := True,
        endpoint := \<lparr>m_endpoint = [],
          client_metadata = Some \<lparr>m_status = ''Failed'', m_uri = websocket_url c,
            m_server = server, m_error_reason = reason\<rparr>,
          m_thread = Some Running\<rparr>\<rparr>\<rparr>"
    by (simp add: P_def connect_def Communicator_connect_def endpoint_connect_def Let_def
        is_open_def new_endpoint_def globals_start_def map_metadata_def set_endpoint_def
        on_fail_def new_connection_metadata_def)
  have u: "use_avalon (communication P)" "connected (communication P)"
    "client_metadata (endpoint (communication P)) \<noteq> None"
    "map_option m_status (client_metadata (endpoint (communication P))) = Some ''Failed''"
    "client_request_id P = 1" "responses P = Map.empty" "sent P = []"
    unfolding p by (simp_all add: globals_start_def sent_def)
  have "call_method E m ps [] P = Inr (None, request_sent m ps P)"
    by (simp add: call_method_usable [OF u(1-3)] u responses_request_sent)
  moreover have "call_notification m ps P
      = Inr (send_frame (Dump_entity (ENotification \<lparr>ntf_method = m, ntf_params = ps\<rparr>)) P)"
    using u(1-3)
    by (auto simp: call_notification_def send_notification_def set_endpoint_def send_frame_def)
  moreover have "client_request_id (request_sent m ps P) = 2"
    and "sent (request_sent m ps P)
          = [Dump_entity (ERequest \<lparr>req_id = Id_of_int 1, req_method = m, req_params = ps\<rparr>)]"
    by (simp_all add: request_sent_simps u)
  ultimately show ?thesis using u unfolding P_def by blast
qed

theorem handshake_failure_leaves_bridge_enabled_witness:
  "call_method demo_env ''workfiles_tool'' (JArray [])  []
     (deliver demo_env (Failed ''aiohttp'' ''Connection refused'')
        (connect demo_env (globals_start demo_communicator)))
   = Inr (None,
       request_sent ''workfiles_tool'' (JArray [])
         (deliver demo_env (Failed ''aiohttp'' ''Connection refused'')
            (connect demo_env (globals_start demo_communicator))))
   \<and> sent (request_sent ''workfiles_tool'' (JArray [])
         (deliver demo_env (Failed ''aiohttp'' ''Connection refused'')
            (connect demo_env (globals_start demo_communicator))))
     = [Dump_entity (ERequest
          \<lparr>req_id = Id_of_int 1, req_method = ''workfiles_tool'', req_params = JArray []\<rparr>)]"
proof -
  have "use_avalon demo_communicator"
    and "get_connection demo_env (websocket_url demo_communicator) = None"
    and "endpoint demo_communicator = new_endpoint"
    by (simp_all add: demo_communicator_simps demo_env_simps)
  from handshake_failure_leaves_bridge_enabled [OF this,
      of "''aiohttp''" "''Connection refused''" "''workfiles_tool''" "JArray []"]
  show ?thesis by blast
qed

subsection \<open>An unset address\<close>

text \<open>
  Claim C7 includes the variable being absent. The code at that input:
  \<^verbatim>\<open>std::getenv\<close> returns a null pointer, the constructor assigns it to a
  \<^verbatim>\<open>std::string\<close>, and no Communicator, hence no program state, comes out.
\<close>

theorem unset_url_stops_construction:
  "Communicator_new None = Inl NullPointer \<and> program_start None = Inl NullPointer"
  by (simp add: Communicator_new_def program_start_def)

subsection \<open>The ping request\<close>

text \<open>
  Claim C8 says a ping request is answered with a result that echoes its sequence
  value. The code at that input: after \<^verbatim>\<open>register_callbacks\<close> the only registered
  method is "execute_george", so a request for "ping" is queued like any other and the
  drain answers it with the error \<open>-32601\<close>, "Method "ping" not found".
\<close>

theorem ping_request_gets_method_not_found:
  assumes "do_parse E msg = Entity (Some (ERequest r))" and "req_method r = ''ping''"
    and "use_avalon (communication p)" and "connected (communication p)"
    and "client_metadata (endpoint (communication p)) \<noteq> None"
    and "messages p = []" and "request_callbacks p = Map.empty"
  shows "process_requests E (deliver E (Message True msg) (register_callbacks E p))
           = Inr ((send_frame (Dump_entity (EResponse (method_not_found r)))
                     (register_callbacks E p))\<lparr>messages := []\<rparr>)
       \<and> frame_error_code (Dump_entity (EResponse (method_not_found r))) = Some (- 32601)"
proof -
  define P where "P = register_callbacks E p"
  define Q where "Q = P\<lparr>messages := [msg]\<rparr>"
  from assms have d: "deliver E (Message True msg) P = Q"
    by (simp add: P_def Q_def register_callbacks_def on_message_def process_message_def)
  from assms have q: "use_avalon (communication Q)" "connected (communication Q)"
    "client_metadata (endpoint (communication Q)) \<noteq> None" "messages Q = [msg]"
    "request_callbacks Q (req_method r) = None"
    by (simp_all add: P_def Q_def register_callbacks_def)
  from process_front_unregistered [OF assms(1) q(5) q(3), of "[]"]
  have "process_front E msg [] Q =
      Inr ((send_frame (Dump_entity (EResponse (method_not_found r))) Q)\<lparr>messages := []\<rparr>)" .
  moreover have "(send_frame (Dump_entity (EResponse (method_not_found r))) Q)\<lparr>messages := []\<rparr>
      = (send_frame (Dump_entity (EResponse (method_not_found r))) P)\<lparr>messages := []\<rparr>"
    by (simp add: Q_def send_frame_def)
  ultimately have "process_requests E Q =
      Inr ((send_frame (Dump_entity (EResponse (method_not_found r))) P)\<lparr>messages := []\<rparr>)"
    using q by (simp add: process_requests_def)
  moreover have "frame_error_code (Dump_entity (EResponse (method_not_found r))) = Some (- 32601)"
    by (simp add: method_not_found_def Response_error_def)
  ultimately show ?thesis unfolding d [symmetric] P_def by simp
qed

subsection \<open>The script handler\<close>

text \<open>
  Claim C9 says the handler returns the command's text when there is some and a boolean
  when there is none. The code on a single string parameter: which of the two it returns
  is fixed by the comparison of two pointers and does not depend on the output. Where
  the two literals are one object the result is always the boolean, also when the
  command produced text; where they are not, it is always the text, also when that is
  empty.
\<close>

theorem execute_george_ignores_output:
  "execute_george E i (JArray [JString script]) =
     Some (Response_result i
       (if literals_shared E then JBool (fst (TVSendCmd E script) \<noteq> 0)
        else JString (snd (TVSendCmd E script))))"
  by (simp add: execute_george_def split: prod.split)

theorem execute_george_ignores_output_witness:
  "execute_george demo_env (Id_of_int 9) (JArray [JString ''tv_version''])
     = Some (Response_result (Id_of_int 9) (JBool True))
   \<and> snd (TVSendCmd demo_env ''tv_version'') = ''TVPaint Animation 11.5''"
  using execute_george_ignores_output [of demo_env "Id_of_int 9" "''tv_version''"]
  by (simp add: demo_env_simps)

lemma demo_before_register_simps:
  "use_avalon (communication (deliver demo_env (Opened ''aiohttp'') (connect demo_env (globals_start demo_communicator))))"
  "connected (communication (deliver demo_env (Opened ''aiohttp'') (connect demo_env (globals_start demo_communicator))))"
  "client_metadata (endpoint (communication (deliver demo_env (Opened ''aiohttp'') (connect demo_env (globals_start demo_communicator))))) \<noteq> None"
  "messages (deliver demo_env (Opened ''aiohttp'') (connect demo_env (globals_start demo_communicator))) = []"
  "request_callbacks (deliver demo_env (Opened ''aiohttp'') (connect demo_env (globals_start demo_communicator))) = Map.empty"
  "sent (deliver demo_env (Opened ''aiohttp'') (connect demo_env (globals_start demo_communicator))) = []"
  by (simp_all add: connect_def Communicator_connect_def endpoint_connect_def
      globals_start_def demo_communicator_def new_endpoint_def is_open_def demo_env_simps
      map_metadata_def set_endpoint_def sent_def Let_def)

lemma sent_messages_update: "sent (p\<lparr>messages := ms\<rparr>) = sent p"
  by (simp add: sent_def)

lemma sent_register_callbacks: "sent (register_callbacks E p) = sent p"
  by (simp add: sent_def register_callbacks_def)

theorem ping_request_gets_method_not_found_witness:
  "map_sum id sent
     (process_requests demo_env
        (deliver demo_env (Message True text_ping)
           (register_callbacks demo_env
              (deliver demo_env (Opened ''aiohttp'')
                 (connect demo_env (globals_start demo_communicator))))))
   = Inr [Dump_entity (EResponse (method_not_found request_ping))]
   \<and> frame_error_code (Dump_entity (EResponse (method_not_found request_ping))) = Some (- 32601)
   \<and> req_params request_ping = JObject [(''seq'', JInt 7)]"
proof -
  define P where
    "P = deliver demo_env (Opened ''aiohttp'') (connect demo_env (globals_start demo_communicator))"
  note P = demo_before_register_simps [folded P_def]
  have "do_parse demo_env text_ping = Entity (Some (ERequest request_ping))"
    and "req_method request_ping = ''ping''"
    by (simp_all add: demo_env_simps demo_parse_simps request_ping_def)
  from ping_request_gets_method_not_found [OF this P(1-5)]
  have "map_sum id sent
      (process_requests demo_env (deliver demo_env (Message True text_ping) (register_callbacks demo_env P)))
      = Inr [Dump_entity (EResponse (method_not_found request_ping))]"
    and "frame_error_code (Dump_entity (EResponse (method_not_found request_ping))) = Some (- 32601)"
    by (simp_all add: sent_messages_update sent_send_frame sent_register_callbacks P(6))
  then show ?thesis unfolding P_def by (simp add: request_ping_def)
qed

lemma deliver_text:
  "client_metadata (endpoint (communication p)) \<noteq> None \<Longrightarrow>
   deliver E (Message True msg) p = process_message E msg p"
  by (cases "client_metadata (endpoint (communication p))") (simp_all add: on_message_def)

lemma demo_after_first:
  "after demo_env [[Message True text_first]] (request_sent m ps demo_open)
     = (request_sent m ps demo_open)\<lparr>responses := [1 \<mapsto> response_first]\<rparr>"
proof -
  define P where "P = request_sent m ps demo_open"
  have md: "client_metadata (endpoint (communication P)) \<noteq> None"
    and r: "responses P = Map.empty"
    by (simp_all add: P_def request_sent_def send_frame_def cm_send_def demo_open_usable)
  have "after demo_env [[Message True text_first]] P = process_message demo_env text_first P"
    by (simp add: after_def deliver_all_def deliver_text [OF md] del: deliver.simps)
  also have "\<dots> = P\<lparr>responses := [1 \<mapsto> response_first]\<rparr>"
    by (simp add: process_message_def demo_env_simps demo_parse_simps r
        response_first_def Response_result_def Id_of_int_def)
  finally show ?thesis unfolding P_def .
qed

theorem call_method_returns_first_entry_witness:
  "call_method demo_env ''workfiles_tool'' (JArray []) [[Message True text_first]] demo_open
     = Inr (Some response_first,
            (request_sent ''workfiles_tool'' (JArray []) demo_open)\<lparr>responses := [1 \<mapsto> response_first]\<rparr>)
   \<and> call_method demo_env ''workfiles_tool'' (JArray []) [] demo_open
     = Inr (None, request_sent ''workfiles_tool'' (JArray []) demo_open)"
proof -
  let ?p1 = "request_sent ''workfiles_tool'' (JArray []) demo_open"
  let ?p2 = "?p1\<lparr>responses := [1 \<mapsto> response_first]\<rparr>"
  note inst = call_method_returns_first_entry [OF demo_open_usable(1-3), of demo_env
      "''workfiles_tool''" "JArray []"]
  have "\<exists>k\<le>length [[Message True text_first]].
      ?p2 = after demo_env (take k [[Message True text_first]]) ?p1
      \<and> responses ?p2 (client_request_id demo_open) = Some response_first
      \<and> (\<forall>j<k. responses (after demo_env (take j [[Message True text_first]]) ?p1)
             (client_request_id demo_open) = None)"
    by (intro exI [of _ 1])
      (simp add: demo_after_first demo_open_usable responses_request_sent after_Nil)
  with inst [of "[[Message True text_first]]" response_first ?p2]
  have one: "call_method demo_env ''workfiles_tool'' (JArray []) [[Message True text_first]] demo_open
     = Inr (Some response_first, ?p2)" by blast
  have "?p1 = after demo_env [] ?p1
      \<and> (\<forall>j\<le>length ([] :: event list list).
            responses (after demo_env (take j []) ?p1) (client_request_id demo_open) = None)"
    by (simp add: after_Nil responses_request_sent demo_open_usable)
  with inst [of "[]" _ ?p1]
  have two: "call_method demo_env ''workfiles_tool'' (JArray []) [] demo_open = Inr (None, ?p1)"
    by blast
  from one two show ?thesis by simp
qed

text \<open>
  Against claim C3 as stated: the call for id 1 has returned its response, and the
  table still holds the entry for id 1.
\<close>

theorem answered_call_entry_remains:
  "map_sum id (\<lambda>(r, p'). (r, responses p' 1))
     (call_method demo_env ''workfiles_tool'' (JArray []) [[Message True text_first]] demo_open)
   = Inr (Some response_first, Some response_first)"
proof -
  have "await demo_env 1 [[Message True text_first]] (request_sent ''workfiles_tool'' (JArray []) demo_open)
      = (Some response_first,
         (request_sent ''workfiles_tool'' (JArray []) demo_open)\<lparr>responses := [1 \<mapsto> response_first]\<rparr>)"
    using demo_after_first [of "''workfiles_tool''" "JArray []"]
    by (simp add: responses_request_sent demo_open_usable after_def)
  then show ?thesis
    by (simp add: call_method_usable demo_open_usable)
qed

theorem call_method_leaves_entry_witness:
  "responses
     ((request_sent ''workfiles_tool'' (JArray []) demo_open)\<lparr>responses := [1 \<mapsto> response_first]\<rparr>)
     (client_request_id demo_open) = Some response_first"
proof -
  have "await demo_env 1 [[Message True text_first]] (request_sent ''workfiles_tool'' (JArray []) demo_open)
      = (Some response_first,
         (request_sent ''workfiles_tool'' (JArray []) demo_open)\<lparr>responses := [1 \<mapsto> response_first]\<rparr>)"
    using demo_after_first [of "''workfiles_tool''" "JArray []"]
    by (simp add: responses_request_sent demo_open_usable after_def)
  then have "call_method demo_env ''workfiles_tool'' (JArray []) [[Message True text_first]] demo_open
      = Inr (Some response_first,
         (request_sent ''workfiles_tool'' (JArray []) demo_open)\<lparr>responses := [1 \<mapsto> response_first]\<rparr>)"
    by (simp add: call_method_usable demo_open_usable)
  from call_method_leaves_entry [OF demo_open_usable(1-3) this] show ?thesis by blast
qed

text \<open>
  Against claim C6 as stated: a JSON object that is no JSON-RPC entity is dropped
  without any reply, and a request of invalid shape is answered with code
  \<open>-32600\<close>, not \<open>-32700\<close>.
\<close>

theorem non_entity_text_dropped_silently:
  "process_message demo_env text_object demo_open = demo_open
   \<and> map frame_error_code (sent (process_message demo_env text_bad_request demo_open))
       = [Some (- 32600)]"
  by (simp add: process_message_def demo_env_simps demo_parse_simps sent_send_frame
      demo_open_usable invalid_request_def)

theorem process_message_replies_witness:
  "sent (process_message demo_env text_broken demo_open)
     = [Dump_exception (ParseErrorException_what ''parse error'')]
   \<and> frame_error_code (Dump_exception (ParseErrorException_what ''parse error'')) = Some (- 32700)
   \<and> process_message demo_env text_object demo_open = demo_open"
  using process_message_replies [of demo_env text_broken _ demo_open "''parse error''"]
    process_message_replies [of demo_env text_object _ demo_open]
  by (simp add: demo_env_simps demo_parse_simps demo_open_usable)

theorem failed_initialisation_disables_bridge_witness:
  "\<exists>q. run demo_env [Call ''workfiles_tool'' (JArray []) [], Notify ''progress'' (JArray []), Drain, Connect]
          (connect demo_env (globals_start (demo_communicator\<lparr>websocket_url := ''not a uri''\<rparr>))) = Inr q
       \<and> sent q = [] \<and> client_request_id q = 1"
proof -
  let ?p = "globals_start (demo_communicator\<lparr>websocket_url := ''not a uri''\<rparr>)"
  have "use_avalon (communication ?p)" and "endpoint (communication ?p) = new_endpoint"
    and "get_connection demo_env (websocket_url (communication ?p)) \<noteq> None"
    by (simp_all add: globals_start_def demo_communicator_def demo_env_def demo_url_def)
  from failed_initialisation_disables_bridge [OF this,
      of "[Call ''workfiles_tool'' (JArray []) [], Notify ''progress'' (JArray []), Drain, Connect]"]
  show ?thesis by (auto simp: globals_start_def sent_def demo_communicator_def new_endpoint_def)
qed

theorem disabled_bridge_is_silent_witness:
  "call_method demo_env ''workfiles_tool'' (JArray []) []
     (globals_start (demo_communicator\<lparr>use_avalon := False\<rparr>))
   = Inr (Some Response_default, globals_start (demo_communicator\<lparr>use_avalon := False\<rparr>))"
proof -
  have "\<not> use_avalon (communication (globals_start (demo_communicator\<lparr>use_avalon := False\<rparr>)))"
    by (simp add: globals_start_def)
  from disabled_bridge_is_silent [OF this] show ?thesis by blast
qed

theorem connected_has_metadata_witness:
  "use_avalon (communication demo_open) \<and> client_metadata (endpoint (communication demo_open)) \<noteq> None"
proof -
  have "Communicator_new (Some demo_url) = Inr demo_communicator"
    by (simp add: Communicator_new_def demo_communicator_def demo_url_def)
  from connected_has_metadata [OF this demo_run demo_open_usable(2)] show ?thesis .
qed

end
